theory Spec2Isabelle
  imports Complex_Main
begin

section \<open>Tensors and the primitives of the tensor engine\<close>

text \<open>
  The module \<^verbatim>\<open>models/layers.py\<close> composes Keras layers over rank-4 tensors laid out
  as \<^verbatim>\<open>[batch, height, width, channels]\<close>. A tensor is modelled by its four dimensions
  and a function from an index to the element stored there. Only the elements whose index
  lies inside the dimensions belong to the tensor.

  The type of the elements is a parameter. The layers of the network are read over the real
  numbers: there the model is the arithmetic the code denotes, not its rounding in
  \<^verbatim>\<open>float32\<close>, with one exception, the sigmoid, whose rounding decides whether its
  bounds are reached. \<^verbatim>\<open>Output.call\<close>, whose result is a quotient, is read over an
  arbitrary arithmetic, of which the \<^verbatim>\<open>float32\<close> arithmetic of the engine is one.

  An operation of the engine that rejects its operands raises; in the model it returns
  \<open>Inl\<close> of an error and the layers pass the error on, as the exception would.
\<close>

datatype tf_error =
    IncompatibleShapes
  | NegativePadding
  | NegativeDimension
  | EmptyImage

record 'a gtensor =
  batch :: nat
  height :: nat
  width :: nat
  channels :: nat
  elem :: "nat \<Rightarrow> nat \<Rightarrow> nat \<Rightarrow> nat \<Rightarrow> 'a"

type_synonym elems = "nat \<Rightarrow> nat \<Rightarrow> nat \<Rightarrow> nat \<Rightarrow> real"

type_synonym tensor = "real gtensor"

definition bindR :: "tf_error + 'a \<Rightarrow> ('a \<Rightarrow> tf_error + 'b) \<Rightarrow> tf_error + 'b" where
  "bindR m f = (case m of Inl e \<Rightarrow> Inl e | Inr v \<Rightarrow> f v)"

definition inside :: "'a gtensor \<Rightarrow> nat \<Rightarrow> nat \<Rightarrow> nat \<Rightarrow> nat \<Rightarrow> bool" where
  "inside x b i j c = (b < batch x \<and> i < height x \<and> j < width x \<and> c < channels x)"

definition same_dims :: "'a gtensor \<Rightarrow> nat \<Rightarrow> nat \<Rightarrow> nat \<Rightarrow> nat \<Rightarrow> bool" where
  "same_dims x B H W C = (batch x = B \<and> height x = H \<and> width x = W \<and> channels x = C)"

subsection \<open>Elementwise arithmetic with broadcasting\<close>

text \<open>
  \<^verbatim>\<open>x * y\<close>, \<^verbatim>\<open>x + y\<close>, \<^verbatim>\<open>x - y\<close> and \<^verbatim>\<open>tf.divide(x, y)\<close> on two tensors broadcast:
  along each axis the two dimensions must be equal or one of them must be 1, and the
  operand whose dimension is 1 is read at index 0 along that axis. A tensor of lower rank
  (a time index of shape \<^verbatim>\<open>[B, 1, 1, 1]\<close>, or a scalar) behaves as the rank-4 tensor with
  leading dimensions 1.
\<close>

definition bcompat :: "nat \<Rightarrow> nat \<Rightarrow> bool" where
  "bcompat m n = (m = n \<or> m = 1 \<or> n = 1)"

definition bdim :: "nat \<Rightarrow> nat \<Rightarrow> nat" where
  "bdim m n = (if m = 1 then n else m)"

definition bidx :: "nat \<Rightarrow> nat \<Rightarrow> nat" where
  "bidx n k = (if n = 1 then 0 else k)"

definition bread :: "'a gtensor \<Rightarrow> nat \<Rightarrow> nat \<Rightarrow> nat \<Rightarrow> nat \<Rightarrow> 'a" where
  "bread x b i j c =
     elem x (bidx (batch x) b) (bidx (height x) i) (bidx (width x) j) (bidx (channels x) c)"

definition broadcast_op ::
  "('a \<Rightarrow> 'a \<Rightarrow> 'a) \<Rightarrow> 'a gtensor \<Rightarrow> 'a gtensor \<Rightarrow> tf_error + 'a gtensor" where
  "broadcast_op f x y =
     (if bcompat (batch x) (batch y) \<and> bcompat (height x) (height y)
         \<and> bcompat (width x) (width y) \<and> bcompat (channels x) (channels y)
      then Inr \<lparr>batch = bdim (batch x) (batch y), height = bdim (height x) (height y),
                width = bdim (width x) (width y), channels = bdim (channels x) (channels y),
                elem = (\<lambda>b i j c. f (bread x b i j c) (bread y b i j c))\<rparr>
      else Inl IncompatibleShapes)"

definition tf_mul :: "tensor \<Rightarrow> tensor \<Rightarrow> tf_error + tensor" where
  "tf_mul = broadcast_op (\<lambda>u v. u * v)"

definition tf_add :: "tensor \<Rightarrow> tensor \<Rightarrow> tf_error + tensor" where
  "tf_add = broadcast_op (\<lambda>u v. u + v)"

definition tf_sub :: "tensor \<Rightarrow> tensor \<Rightarrow> tf_error + tensor" where
  "tf_sub = broadcast_op (\<lambda>u v. u - v)"

text \<open>A Python number combined with a tensor acts on every element and cannot fail.\<close>

definition tensor_map :: "('a \<Rightarrow> 'a) \<Rightarrow> 'a gtensor \<Rightarrow> 'a gtensor" where
  "tensor_map g x = x\<lparr>elem := (\<lambda>b i j c. g (elem x b i j c))\<rparr>"

definition scalar_minus :: "real \<Rightarrow> tensor \<Rightarrow> tensor" where
  "scalar_minus k x = tensor_map (\<lambda>v. k - v) x"

definition scalar_times :: "real \<Rightarrow> tensor \<Rightarrow> tensor" where
  "scalar_times k x = tensor_map (\<lambda>v. k * v) x"

definition plus_scalar :: "tensor \<Rightarrow> real \<Rightarrow> tensor" where
  "plus_scalar x k = tensor_map (\<lambda>v. v + k) x"

subsection \<open>The same operations over an arbitrary arithmetic\<close>

text \<open>
  The arithmetic of a tensor's element type: how a Python number is converted to an
  element, and the four operations on two elements. Nothing is assumed of them. The
  \<^verbatim>\<open>float32\<close> arithmetic of the engine is one such arithmetic: it rounds every result,
  and its division by zero yields an infinity or a NaN instead of raising.
\<close>

record 'a arithmetic =
  ar_const :: "real \<Rightarrow> 'a"
  ar_add :: "'a \<Rightarrow> 'a \<Rightarrow> 'a"
  ar_sub :: "'a \<Rightarrow> 'a \<Rightarrow> 'a"
  ar_mul :: "'a \<Rightarrow> 'a \<Rightarrow> 'a"
  ar_div :: "'a \<Rightarrow> 'a \<Rightarrow> 'a"

definition tf_mul_in :: "'a arithmetic \<Rightarrow> 'a gtensor \<Rightarrow> 'a gtensor \<Rightarrow> tf_error + 'a gtensor" where
  "tf_mul_in A = broadcast_op (ar_mul A)"

definition tf_add_in :: "'a arithmetic \<Rightarrow> 'a gtensor \<Rightarrow> 'a gtensor \<Rightarrow> tf_error + 'a gtensor" where
  "tf_add_in A = broadcast_op (ar_add A)"

definition tf_divide_in :: "'a arithmetic \<Rightarrow> 'a gtensor \<Rightarrow> 'a gtensor \<Rightarrow> tf_error + 'a gtensor" where
  "tf_divide_in A = broadcast_op (ar_div A)"

definition scalar_minus_in :: "'a arithmetic \<Rightarrow> real \<Rightarrow> 'a gtensor \<Rightarrow> 'a gtensor" where
  "scalar_minus_in A k x = tensor_map (\<lambda>v. ar_sub A (ar_const A k) v) x"

definition plus_scalar_in :: "'a arithmetic \<Rightarrow> 'a gtensor \<Rightarrow> real \<Rightarrow> 'a gtensor" where
  "plus_scalar_in A x k = tensor_map (\<lambda>v. ar_add A v (ar_const A k)) x"

text \<open>The arithmetic of the real numbers, in which the operations above are the exact ones.\<close>

definition exact_arithmetic :: "real arithmetic" where
  "exact_arithmetic =
     \<lparr>ar_const = (\<lambda>k. k), ar_add = (\<lambda>u v. u + v), ar_sub = (\<lambda>u v. u - v),
      ar_mul = (\<lambda>u v. u * v), ar_div = (\<lambda>u v. u / v)\<rparr>"

subsection \<open>Padding, concatenation and slicing\<close>

text \<open>
  \<^verbatim>\<open>tf.pad(x, paddings)\<close> in its default mode adds zeros before and after every axis; the
  engine rejects a negative amount. \<^verbatim>\<open>paddings\<close> holds one pair of Python integers for
  each of the four axes.
\<close>

type_synonym paddings = "(int \<times> int) \<times> (int \<times> int) \<times> (int \<times> int) \<times> (int \<times> int)"

definition tf_pad :: "tensor \<Rightarrow> paddings \<Rightarrow> tf_error + tensor" where
  "tf_pad x p =
     (case p of ((b0, b1), (h0, h1), (w0, w1), (c0, c1)) \<Rightarrow>
        if b0 < 0 \<or> b1 < 0 \<or> h0 < 0 \<or> h1 < 0 \<or> w0 < 0 \<or> w1 < 0 \<or> c0 < 0 \<or> c1 < 0
        then Inl NegativePadding
        else Inr \<lparr>batch = nat b0 + batch x + nat b1, height = nat h0 + height x + nat h1,
                  width = nat w0 + width x + nat w1, channels = nat c0 + channels x + nat c1,
                  elem = (\<lambda>b i j c.
                    if nat b0 \<le> b \<and> b < nat b0 + batch x \<and> nat h0 \<le> i \<and> i < nat h0 + height x
                       \<and> nat w0 \<le> j \<and> j < nat w0 + width x \<and> nat c0 \<le> c \<and> c < nat c0 + channels x
                    then elem x (b - nat b0) (i - nat h0) (j - nat w0) (c - nat c0)
                    else 0)\<rparr>)"

text \<open>
  \<^verbatim>\<open>tf.concat(xs, axis=3)\<close> and \<^verbatim>\<open>Concatenate(axis=3)(xs)\<close> put the channels of the
  tensors of a list one after the other; the other three dimensions must agree.
\<close>

fun concat_axis3 :: "tensor list \<Rightarrow> tf_error + tensor" where
  "concat_axis3 [] = Inl IncompatibleShapes"
| "concat_axis3 [x] = Inr x"
| "concat_axis3 (x # y # ys) =
     bindR (concat_axis3 (y # ys)) (\<lambda>r.
       if batch x = batch r \<and> height x = height r \<and> width x = width r
       then Inr \<lparr>batch = batch x, height = height x, width = width x,
                 channels = channels x + channels r,
                 elem = (\<lambda>b i j c. if c < channels x then elem x b i j c
                                    else elem r b i j (c - channels x))\<rparr>
       else Inl IncompatibleShapes)"

text \<open>
  The Python slice \<^verbatim>\<open>x[:, :, :, lo:hi]\<close> with \<open>0 \<le> lo \<le> hi\<close>: both bounds are clipped to
  the number of channels, and the slice never raises.
\<close>

definition slice_channels :: "nat \<Rightarrow> nat \<Rightarrow> tensor \<Rightarrow> tensor" where
  "slice_channels lo hi x =
     x\<lparr>channels := min hi (channels x) - min lo (channels x),
       elem := (\<lambda>b i j c. elem x b i j (lo + c))\<rparr>"

subsection \<open>The Keras layers the module instantiates\<close>

text \<open>
  \<^verbatim>\<open>Conv2D(filters, kernel_size, strides=1, padding="same")\<close> keeps the batch and the
  spatial dimensions and produces \<^verbatim>\<open>filters\<close> channels. Its kernel and bias are variables
  of the engine, created and trained outside this module: the values the convolution
  produces are the field \<open>response\<close>, a parameter of the model. The input is taken to
  have the number of channels the kernel was created for, so that the layer does not raise.
\<close>

record Conv2D =
  filters :: nat
  kernel_size :: nat
  response :: "tensor \<Rightarrow> elems"

definition Conv2D_call :: "Conv2D \<Rightarrow> tensor \<Rightarrow> tensor" where
  "Conv2D_call self x =
     \<lparr>batch = batch x, height = height x, width = width x, channels = filters self,
      elem = response self x\<rparr>"

text \<open>\<^verbatim>\<open>LeakyReLU(alpha)\<close>: the identity on non-negative elements, \<^verbatim>\<open>alpha * v\<close> below zero.\<close>

definition LeakyReLU_call :: "real \<Rightarrow> tensor \<Rightarrow> tensor" where
  "LeakyReLU_call alpha x = tensor_map (\<lambda>v. if 0 \<le> v then v else alpha * v) x"

text \<open>
  \<^verbatim>\<open>AveragePooling2D()\<close>: windows of 2 by 2, stride 2, padding \<^verbatim>\<open>valid\<close>. The spatial
  dimensions are halved, rounding down. On an input smaller than the window the layer
  depends on how it is run: the shape inference of a traced graph rejects it (a negative
  dimension), an eager call returns an empty tensor. The model raises there; every theorem
  below that states the result of a pooling layer assumes an input of at least 2 by 2, on
  which the two agree, and a theorem that a call returns also shows that no pooling layer
  meets a smaller input.
\<close>

definition AveragePooling2D_call :: "tensor \<Rightarrow> tf_error + tensor" where
  "AveragePooling2D_call x =
     (if height x < 2 \<or> width x < 2 then Inl NegativeDimension
      else Inr \<lparr>batch = batch x, height = height x div 2, width = width x div 2,
                channels = channels x,
                elem = (\<lambda>b i j c. (elem x b (2 * i) (2 * j) c + elem x b (2 * i) (2 * j + 1) c
                          + elem x b (2 * i + 1) (2 * j) c + elem x b (2 * i + 1) (2 * j + 1) c) / 4)\<rparr>)"

text \<open>
  \<^verbatim>\<open>UpSampling2D(interpolation="bilinear")\<close> with its default size 2 doubles both spatial
  dimensions. The interpolated values come from the resize kernel of the engine and are a
  parameter. The resize kernel rejects an image of height or width 0.
\<close>

definition UpSampling2D_call :: "(tensor \<Rightarrow> elems) \<Rightarrow> tensor \<Rightarrow> tf_error + tensor" where
  "UpSampling2D_call resize x =
     (if height x = 0 \<or> width x = 0 then Inl EmptyImage
      else Inr \<lparr>batch = batch x, height = 2 * height x, width = 2 * width x,
                channels = channels x, elem = resize x\<rparr>)"

text \<open>
  The nearest \<^verbatim>\<open>float32\<close> to a real number within the range of \<^verbatim>\<open>float32\<close>: a
  multiple of \<open>2 ^ (e - 23)\<close>, where \<open>e\<close> is the binary exponent of the number and is at
  least \<open>-126\<close>. A number half way between two neighbours goes to the upper one.
\<close>

definition float32_round :: "real \<Rightarrow> real" where
  "float32_round x =
     (if x = 0 then 0
      else let e = max (- 126) \<lfloor>log 2 \<bar>x\<bar>\<rfloor>; u = 2 powr of_int (e - 23)
           in of_int (round (x / u)) * u)"

text \<open>
  \<^verbatim>\<open>tf.keras.activations.sigmoid\<close> on a \<^verbatim>\<open>float32\<close> tensor: the logistic function,
  stored as a \<^verbatim>\<open>float32\<close>. The kernel of the engine is taken to return the nearest
  \<^verbatim>\<open>float32\<close>.
\<close>

definition sigmoid :: "real \<Rightarrow> real" where
  "sigmoid v = float32_round (1 / (1 + exp (- v)))"

section \<open>Encoder\<close>

record Encoder =
  enc_conv1 :: Conv2D
  enc_conv2 :: Conv2D
  enc_leaky_relu :: real

definition Encoder_build :: "nat \<Rightarrow> nat \<Rightarrow> (tensor \<Rightarrow> elems) \<Rightarrow> (tensor \<Rightarrow> elems) \<Rightarrow> Encoder" where
  "Encoder_build n_filters k_size w1 w2 =
     \<lparr>enc_conv1 = \<lparr>filters = n_filters, kernel_size = k_size, response = w1\<rparr>,
      enc_conv2 = \<lparr>filters = n_filters, kernel_size = k_size, response = w2\<rparr>,
      enc_leaky_relu = 1 / 10\<rparr>"

definition Encoder_call :: "Encoder \<Rightarrow> tensor \<Rightarrow> tf_error + tensor" where
  "Encoder_call self inputs =
     bindR (AveragePooling2D_call inputs) (\<lambda>x.
       let x = Conv2D_call (enc_conv1 self) x;
           x = LeakyReLU_call (enc_leaky_relu self) x;
           x = Conv2D_call (enc_conv2 self) x;
           x = LeakyReLU_call (enc_leaky_relu self) x
       in Inr x)"

section \<open>Decoder\<close>

record Decoder =
  dec_conv1 :: Conv2D
  dec_conv2 :: Conv2D
  dec_interpolation :: "tensor \<Rightarrow> elems"
  dec_leaky_relu :: real

definition Decoder_build :: "nat \<Rightarrow> (tensor \<Rightarrow> elems) \<Rightarrow> (tensor \<Rightarrow> elems) \<Rightarrow> (tensor \<Rightarrow> elems) \<Rightarrow> Decoder" where
  "Decoder_build n_filters resize w1 w2 =
     \<lparr>dec_conv1 = \<lparr>filters = n_filters, kernel_size = 3, response = w1\<rparr>,
      dec_conv2 = \<lparr>filters = n_filters, kernel_size = 3, response = w2\<rparr>,
      dec_interpolation = resize,
      dec_leaky_relu = 1 / 10\<rparr>"

text \<open>
  \<^verbatim>\<open>Decoder.call\<close>. \<^verbatim>\<open>x_delta\<close> and \<^verbatim>\<open>y_delta\<close> are Python integers and can be
  negative.
\<close>

definition Decoder_call :: "Decoder \<Rightarrow> tensor \<Rightarrow> tensor \<Rightarrow> tf_error + tensor" where
  "Decoder_call self x skip =
     bindR (UpSampling2D_call (dec_interpolation self) x) (\<lambda>x.
       let x = Conv2D_call (dec_conv1 self) x;
           x = LeakyReLU_call (dec_leaky_relu self) x;
           x_delta = int (height skip) - int (height x);
           y_delta = int (width skip) - int (width x)
       in bindR (tf_pad x ((0, 0), (0, x_delta), (0, y_delta), (0, 0))) (\<lambda>x.
          bindR (concat_axis3 [x, skip]) (\<lambda>x.
            let x = Conv2D_call (dec_conv2 self) x;
                x = LeakyReLU_call (dec_leaky_relu self) x
            in Inr x)))"

section \<open>UNet\<close>

record UNet =
  unet_leaky_relu :: real
  unet_conv1 :: Conv2D
  unet_conv2 :: Conv2D
  unet_encoder1 :: Encoder
  unet_encoder2 :: Encoder
  unet_encoder3 :: Encoder
  unet_encoder4 :: Encoder
  unet_encoder5 :: Encoder
  unet_decoder1 :: Decoder
  unet_decoder2 :: Decoder
  unet_decoder3 :: Decoder
  unet_decoder4 :: Decoder
  unet_decoder5 :: Decoder
  unet_conv3 :: Conv2D

text \<open>
  \<^verbatim>\<open>UNet.build\<close>. The 23 convolutions are numbered in the order in which \<^verbatim>\<open>build\<close>
  creates them; \<open>w k\<close> is the response of convolution \<open>k\<close>.
\<close>

definition UNet_build :: "nat \<Rightarrow> (tensor \<Rightarrow> elems) \<Rightarrow> (nat \<Rightarrow> tensor \<Rightarrow> elems) \<Rightarrow> UNet" where
  "UNet_build out_filters resize w =
     \<lparr>unet_leaky_relu = 1 / 10,
      unet_conv1 = \<lparr>filters = 32, kernel_size = 7, response = w 0\<rparr>,
      unet_conv2 = \<lparr>filters = 32, kernel_size = 7, response = w 1\<rparr>,
      unet_encoder1 = Encoder_build 64 5 (w 2) (w 3),
      unet_encoder2 = Encoder_build 128 5 (w 4) (w 5),
      unet_encoder3 = Encoder_build 256 3 (w 6) (w 7),
      unet_encoder4 = Encoder_build 512 3 (w 8) (w 9),
      unet_encoder5 = Encoder_build 512 3 (w 10) (w 11),
      unet_decoder1 = Decoder_build 512 resize (w 12) (w 13),
      unet_decoder2 = Decoder_build 256 resize (w 14) (w 15),
      unet_decoder3 = Decoder_build 128 resize (w 16) (w 17),
      unet_decoder4 = Decoder_build 64 resize (w 18) (w 19),
      unet_decoder5 = Decoder_build 32 resize (w 20) (w 21),
      unet_conv3 = \<lparr>filters = out_filters, kernel_size = 3, response = w 22\<rparr>\<rparr>"

definition UNet_call :: "UNet \<Rightarrow> tensor \<Rightarrow> tf_error + tensor" where
  "UNet_call self inputs =
     (let x_enc = Conv2D_call (unet_conv1 self) inputs;
          x_enc = LeakyReLU_call (unet_leaky_relu self) x_enc;
          skip = Conv2D_call (unet_conv2 self) x_enc;
          skip1 = LeakyReLU_call (unet_leaky_relu self) skip
      in bindR (Encoder_call (unet_encoder1 self) skip1) (\<lambda>skip2.
         bindR (Encoder_call (unet_encoder2 self) skip2) (\<lambda>skip3.
         bindR (Encoder_call (unet_encoder3 self) skip3) (\<lambda>skip4.
         bindR (Encoder_call (unet_encoder4 self) skip4) (\<lambda>skip5.
         bindR (Encoder_call (unet_encoder5 self) skip5) (\<lambda>x_enc.
         bindR (Decoder_call (unet_decoder1 self) x_enc skip5) (\<lambda>x_dec.
         bindR (Decoder_call (unet_decoder2 self) x_dec skip4) (\<lambda>x_dec.
         bindR (Decoder_call (unet_decoder3 self) x_dec skip3) (\<lambda>x_dec.
         bindR (Decoder_call (unet_decoder4 self) x_dec skip2) (\<lambda>x_dec.
         bindR (Decoder_call (unet_decoder5 self) x_dec skip1) (\<lambda>x_dec.
           let x_dec = Conv2D_call (unet_conv3 self) x_dec;
               x_dec = LeakyReLU_call (unet_leaky_relu self) x_dec
           in Inr x_dec)))))))))))"

text \<open>
  The architecture in the words of its description: a stem of two activated
  convolutions, a chain of encoder stages that records the input of every stage as a skip
  tensor, a chain of decoder stages that consumes the skip tensors last produced first, and
  an activated convolution at the end.
\<close>

fun encoder_chain :: "Encoder list \<Rightarrow> tensor \<Rightarrow> tf_error + tensor list \<times> tensor" where
  "encoder_chain [] x = Inr ([], x)"
| "encoder_chain (e # es) x =
     bindR (Encoder_call e x) (\<lambda>y.
     bindR (encoder_chain es y) (\<lambda>(skips, bottom). Inr (x # skips, bottom)))"

fun decoder_chain :: "Decoder list \<Rightarrow> tensor list \<Rightarrow> tensor \<Rightarrow> tf_error + tensor" where
  "decoder_chain (d # ds) (s # ss) x = bindR (Decoder_call d x s) (decoder_chain ds ss)"
| "decoder_chain ds ss x = Inr x"

definition UNet_stages ::
  "real \<Rightarrow> Conv2D \<Rightarrow> Conv2D \<Rightarrow> Encoder list \<Rightarrow> Decoder list \<Rightarrow> Conv2D \<Rightarrow> tensor \<Rightarrow> tf_error + tensor" where
  "UNet_stages alpha c1 c2 encoders decoders c3 inputs =
     (let skip1 = LeakyReLU_call alpha (Conv2D_call c2 (LeakyReLU_call alpha (Conv2D_call c1 inputs)))
      in bindR (encoder_chain encoders skip1) (\<lambda>(skips, bottom).
         bindR (decoder_chain decoders (rev skips) bottom) (\<lambda>x_dec.
           Inr (LeakyReLU_call alpha (Conv2D_call c3 x_dec)))))"

section \<open>BackWarp\<close>

text \<open>
  \<^verbatim>\<open>BackWarp.build\<close> stores \<^verbatim>\<open>tfa.image.dense_image_warp\<close>, a function of an add-on
  library, and \<^verbatim>\<open>BackWarp.call\<close> applies it to the image and the flow. The warp is a
  parameter of the model; it can raise.
\<close>

record 'a BackWarp =
  backwarp :: "'a gtensor \<Rightarrow> 'a gtensor \<Rightarrow> tf_error + 'a gtensor"

definition BackWarp_build ::
  "('a gtensor \<Rightarrow> 'a gtensor \<Rightarrow> tf_error + 'a gtensor) \<Rightarrow> 'a BackWarp" where
  "BackWarp_build dense_image_warp = \<lparr>backwarp = dense_image_warp\<rparr>"

definition BackWarp_call ::
  "'a BackWarp \<Rightarrow> 'a gtensor \<Rightarrow> 'a gtensor \<Rightarrow> tf_error + 'a gtensor" where
  "BackWarp_call self img flow = backwarp self img flow"

text \<open>
  Modelled from the spec: the row or column read for a location outside the image. The warp
  \<^verbatim>\<open>tfa.image.dense_image_warp\<close> is a function of the add-on library and is not among
  the source files; its description does not say what is read outside the image, and the
  model reads the nearest row or column of the image there.
\<close>

definition clamp_index :: "nat \<Rightarrow> int \<Rightarrow> nat" where
  "clamp_index n k = nat (max 0 (min (int n - 1) k))"

text \<open>
  Modelled from the spec: the pixel of the image at an integer location, part of the same
  missing warp.
\<close>

definition pixel :: "tensor \<Rightarrow> nat \<Rightarrow> int \<Rightarrow> int \<Rightarrow> nat \<Rightarrow> real" where
  "pixel img b i j c = elem img b (clamp_index (height img) i) (clamp_index (width img) j) c"

text \<open>
  Modelled from the spec: bilinear interpolation, the operation of the missing warp. The
  value of an image at a real location \<open>(y, x)\<close> is the weighted mean of the four pixels
  around the location, with the fractional parts of the two coordinates as weights.
\<close>

definition bilinear :: "tensor \<Rightarrow> nat \<Rightarrow> real \<Rightarrow> real \<Rightarrow> nat \<Rightarrow> real" where
  "bilinear img b y x c =
     (let i0 = \<lfloor>y\<rfloor>; j0 = \<lfloor>x\<rfloor>; a = y - of_int i0; d = x - of_int j0
      in (1 - a) * ((1 - d) * pixel img b i0 j0 c + d * pixel img b i0 (j0 + 1) c)
         + a * ((1 - d) * pixel img b (i0 + 1) j0 c + d * pixel img b (i0 + 1) (j0 + 1) c))"

text \<open>
  Modelled from the spec: the warp \<^verbatim>\<open>tfa.image.dense_image_warp\<close> itself, which is not
  among the source files. In the words of the description of \<^verbatim>\<open>BackWarp.call\<close>, the output at pixel
  \<^verbatim>\<open>(b, i, j, c)\<close> is the bilinearly interpolated value of the image at the location
  \<^verbatim>\<open>(i - flow[b,i,j,0], j - flow[b,i,j,1])\<close>. The result has the shape of the image.
\<close>

definition tfa_dense_image_warp :: "tensor \<Rightarrow> tensor \<Rightarrow> tf_error + tensor" where
  "tfa_dense_image_warp img flow =
     Inr \<lparr>batch = batch img, height = height img, width = width img, channels = channels img,
          elem = (\<lambda>b i j c.
            bilinear img b (real i - elem flow b i j 0) (real j - elem flow b i j 1) c)\<rparr>"

section \<open>OpticalFlow: the intermediate flows\<close>

text \<open>
  Lines 158 to 163 of \<^verbatim>\<open>OpticalFlow.call\<close>:
  \<^verbatim>\<open>
    t0_value = (-1 * (1 - t_indeces)) * t_indeces
    t1_value = t_indeces * t_indeces
    f_t0_t = (t0_value * f_01) + (t1_value * f_10)
    t1_value = (1 - t_indeces) * (1 - t_indeces)
    f_t1_t = (t1_value * f_01) - (t0_value * f_10)
  \<close>
  The second assignment to \<^verbatim>\<open>t1_value\<close> shadows the first; \<^verbatim>\<open>t0_value\<close> is reused as it is.
\<close>

definition OpticalFlow_flows :: "tensor \<Rightarrow> tensor \<Rightarrow> tensor \<Rightarrow> tf_error + tensor \<times> tensor" where
  "OpticalFlow_flows f_01 f_10 t_indeces =
     bindR (tf_mul (scalar_times (- 1) (scalar_minus 1 t_indeces)) t_indeces) (\<lambda>t0_value.
     bindR (tf_mul t_indeces t_indeces) (\<lambda>t1_value.
     bindR (tf_mul t0_value f_01) (\<lambda>l0.
     bindR (tf_mul t1_value f_10) (\<lambda>r0.
     bindR (tf_add l0 r0) (\<lambda>f_t0_t.
     bindR (tf_mul (scalar_minus 1 t_indeces) (scalar_minus 1 t_indeces)) (\<lambda>t1_value.
     bindR (tf_mul t1_value f_01) (\<lambda>l1.
     bindR (tf_mul t0_value f_10) (\<lambda>r1.
     bindR (tf_sub l1 r1) (\<lambda>f_t1_t.
     Inr (f_t0_t, f_t1_t))))))))))"

section \<open>OpticalFlow: the whole call\<close>

record OpticalFlow =
  flow_interp_layer :: UNet
  backwarp_layer_t0 :: "real BackWarp"
  backwarp_layer_t1 :: "real BackWarp"

definition OpticalFlow_build ::
  "(tensor \<Rightarrow> tensor \<Rightarrow> tf_error + tensor) \<Rightarrow> (tensor \<Rightarrow> elems) \<Rightarrow> (nat \<Rightarrow> tensor \<Rightarrow> elems) \<Rightarrow> OpticalFlow" where
  "OpticalFlow_build dense_image_warp resize w =
     \<lparr>flow_interp_layer = UNet_build 5 resize w,
      backwarp_layer_t0 = BackWarp_build dense_image_warp,
      backwarp_layer_t1 = BackWarp_build dense_image_warp\<rparr>"

definition OpticalFlow_call ::
  "OpticalFlow \<Rightarrow> tensor \<times> tensor \<times> tensor \<times> tensor \<times> tensor
     \<Rightarrow> tf_error + tensor \<times> tensor \<times> tensor \<times> tensor \<times> tensor \<times> tensor" where
  "OpticalFlow_call self inputs =
     (case inputs of (frames_0, frames_1, f_01, f_10, t_indeces) \<Rightarrow>
       bindR (OpticalFlow_flows f_01 f_10 t_indeces) (\<lambda>(f_t0_t, f_t1_t).
       bindR (BackWarp_call (backwarp_layer_t0 self) frames_0 f_t0_t) (\<lambda>g_i0_ft0.
       bindR (BackWarp_call (backwarp_layer_t1 self) frames_1 f_t1_t) (\<lambda>g_i1_ft1.
       bindR (concat_axis3
                [frames_0, frames_1, f_01, f_10, f_t1_t, f_t0_t, g_i1_ft1, g_i0_ft0]) (\<lambda>flow_interp_in.
       bindR (UNet_call (flow_interp_layer self) flow_interp_in) (\<lambda>flow_interp_out.
         let delta_f_t0 = slice_channels 0 2 flow_interp_out;
             delta_f_t1 = slice_channels 2 4 flow_interp_out;
             v_t0 = tensor_map sigmoid (slice_channels 4 5 flow_interp_out);
             v_t1 = scalar_minus 1 v_t0
         in bindR (tf_add f_t0_t delta_f_t0) (\<lambda>f_t0.
            bindR (tf_add f_t1_t delta_f_t1) (\<lambda>f_t1.
              Inr (f_t0, v_t0, f_t1, v_t1, g_i0_ft0, g_i1_ft1)))))))))"

section \<open>Output\<close>

record 'a Output =
  out_backwarp_layer_t0 :: "'a BackWarp"
  out_backwarp_layer_t1 :: "'a BackWarp"

definition Output_build ::
  "('a gtensor \<Rightarrow> 'a gtensor \<Rightarrow> tf_error + 'a gtensor) \<Rightarrow> 'a Output" where
  "Output_build dense_image_warp =
     \<lparr>out_backwarp_layer_t0 = BackWarp_build dense_image_warp,
      out_backwarp_layer_t1 = BackWarp_build dense_image_warp\<rparr>"

text \<open>
  Line 203, the divisor \<^verbatim>\<open>z\<close>, in the arithmetic \<open>A\<close>; the constant \<^verbatim>\<open>1e-12\<close> is the
  number \<open>1 / 10 ^ 12\<close> converted to an element.
\<close>

definition Output_z_in ::
  "'a arithmetic \<Rightarrow> 'a gtensor \<Rightarrow> 'a gtensor \<Rightarrow> 'a gtensor \<Rightarrow> tf_error + 'a gtensor" where
  "Output_z_in A v_t0 v_t1 t_indeces =
     bindR (tf_mul_in A (scalar_minus_in A 1 t_indeces) v_t0) (\<lambda>l.
     bindR (tf_mul_in A t_indeces v_t1) (\<lambda>r.
     bindR (tf_add_in A l r) (\<lambda>s.
       Inr (plus_scalar_in A s (1 / 10 ^ 12)))))"

text \<open>The same line in exact arithmetic; the constant \<^verbatim>\<open>1e-12\<close> is \<open>1 / 10 ^ 12\<close>.\<close>

definition Output_z :: "tensor \<Rightarrow> tensor \<Rightarrow> tensor \<Rightarrow> tf_error + tensor" where
  "Output_z v_t0 v_t1 t_indeces =
     bindR (tf_mul (scalar_minus 1 t_indeces) v_t0) (\<lambda>l.
     bindR (tf_mul t_indeces v_t1) (\<lambda>r.
     bindR (tf_add l r) (\<lambda>s.
       Inr (plus_scalar s (1 / 10 ^ 12)))))"

text \<open>\<^verbatim>\<open>Output.call\<close> in the arithmetic \<open>A\<close>.\<close>

definition Output_call ::
  "'a arithmetic \<Rightarrow> 'a Output
     \<Rightarrow> 'a gtensor \<times> 'a gtensor \<times> 'a gtensor \<times> 'a gtensor \<times> 'a gtensor \<times> 'a gtensor \<times> 'a gtensor
     \<Rightarrow> tf_error + 'a gtensor" where
  "Output_call A self inputs =
     (case inputs of (frames_0, f_t0, v_t0, frames_1, f_t1, v_t1, t_indeces) \<Rightarrow>
       bindR (BackWarp_call (out_backwarp_layer_t0 self) frames_0 f_t0) (\<lambda>g_i0_ft0.
       bindR (BackWarp_call (out_backwarp_layer_t1 self) frames_1 f_t1) (\<lambda>g_i1_ft1.
       bindR (Output_z_in A v_t0 v_t1 t_indeces) (\<lambda>z.
       bindR (tf_mul_in A (scalar_minus_in A 1 t_indeces) v_t0) (\<lambda>l.
       bindR (tf_mul_in A l g_i0_ft0) (\<lambda>l.
       bindR (tf_mul_in A t_indeces v_t1) (\<lambda>r.
       bindR (tf_mul_in A r g_i1_ft1) (\<lambda>r.
       bindR (tf_add_in A l r) (\<lambda>frame_pred.
         tf_divide_in A frame_pred z)))))))))"

section \<open>Reference formulas and sample inputs\<close>

text \<open>The equations of the Super SloMo paper for the two intermediate flows, on one element.\<close>

definition paper_f_t0 :: "real \<Rightarrow> real \<Rightarrow> real \<Rightarrow> real" where
  "paper_f_t0 t a b = - (1 - t) * t * a + t\<^sup>2 * b"

definition paper_f_t1 :: "real \<Rightarrow> real \<Rightarrow> real \<Rightarrow> real" where
  "paper_f_t1 t a b = (1 - t)\<^sup>2 * a - t * (1 - t) * b"

text \<open>
  A tensor fits the dimensions \<open>B H W C\<close> when it broadcasts to them: each of its
  dimensions is 1 or the given one.
\<close>

definition fits :: "'a gtensor \<Rightarrow> nat \<Rightarrow> nat \<Rightarrow> nat \<Rightarrow> nat \<Rightarrow> bool" where
  "fits x B H W C =
     ((batch x = 1 \<or> batch x = B) \<and> (height x = 1 \<or> height x = H)
      \<and> (width x = 1 \<or> width x = W) \<and> (channels x = 1 \<or> channels x = C))"

text \<open>A tensor with the same value at every index.\<close>

definition full :: "nat \<Rightarrow> nat \<Rightarrow> nat \<Rightarrow> nat \<Rightarrow> real \<Rightarrow> tensor" where
  "full B H W C v = \<lparr>batch = B, height = H, width = W, channels = C, elem = (\<lambda>b i j c. v)\<rparr>"

text \<open>
  Sample parameters for concrete instances: a convolution or resize kernel whose response
  is the same number everywhere, and a warp that returns the image unchanged. They stand
  for no particular weights and are not a model of the warp of the add-on library.
\<close>

definition const_response :: "real \<Rightarrow> tensor \<Rightarrow> elems" where
  "const_response v x = (\<lambda>b i j c. v)"

definition zero_weights :: "nat \<Rightarrow> tensor \<Rightarrow> elems" where
  "zero_weights k = const_response 0"

definition const_weights :: "real \<Rightarrow> nat \<Rightarrow> tensor \<Rightarrow> elems" where
  "const_weights v k = const_response v"

definition keep_image :: "'a gtensor \<Rightarrow> 'a gtensor \<Rightarrow> tf_error + 'a gtensor" where
  "keep_image img flow = Inr img"

text \<open>A sample image that differs from pixel to pixel: element \<open>(b, i, j, c)\<close> is \<open>10 * i + j\<close>.\<close>

definition ramp :: "nat \<Rightarrow> nat \<Rightarrow> nat \<Rightarrow> nat \<Rightarrow> tensor" where
  "ramp B H W C =
     \<lparr>batch = B, height = H, width = W, channels = C, elem = (\<lambda>b i j c. real (10 * i + j))\<rparr>"

text \<open>
  A sample arithmetic that computes nothing: an element is the expression that the
  operations have built, so that a result shows which operations produced it, in which
  order and on which operands.
\<close>

datatype expr =
    Num real
  | Add expr expr
  | Sub expr expr
  | Mul expr expr
  | Div expr expr

definition symbolic :: "expr arithmetic" where
  "symbolic = \<lparr>ar_const = Num, ar_add = Add, ar_sub = Sub, ar_mul = Mul, ar_div = Div\<rparr>"

text \<open>A tensor of expressions with the same number at every index.\<close>

definition full_num :: "nat \<Rightarrow> nat \<Rightarrow> nat \<Rightarrow> nat \<Rightarrow> real \<Rightarrow> expr gtensor" where
  "full_num B H W C v =
     \<lparr>batch = B, height = H, width = W, channels = C, elem = (\<lambda>b i j c. Num v)\<rparr>"


section \<open>Basic facts about the primitives\<close>

lemma bindR_Inl [simp]: "bindR (Inl e) f = Inl e"
  by (simp add: bindR_def)

lemma bindR_Inr [simp]: "bindR (Inr v) f = f v"
  by (simp add: bindR_def)

lemma bindR_eq_Inr: "bindR m f = Inr r \<longleftrightarrow> (\<exists>v. m = Inr v \<and> f v = Inr r)"
  by (cases m) simp_all

lemma bindR_assoc: "bindR (bindR m f) g = bindR m (\<lambda>v. bindR (f v) g)"
  by (cases m) simp_all

lemma bidx_bdim_left: "bidx m (bidx (bdim m n) k) = bidx m k"
  by (simp add: bidx_def bdim_def)

lemma bidx_bdim_right: "bcompat m n \<Longrightarrow> bidx n (bidx (bdim m n) k) = bidx n k"
  by (auto simp: bidx_def bdim_def bcompat_def)

lemma fitsD:
  assumes "fits x B H W C"
  shows "batch x = 1 \<or> batch x = B" and "height x = 1 \<or> height x = H"
    and "width x = 1 \<or> width x = W" and "channels x = 1 \<or> channels x = C"
  using assms by (simp_all add: fits_def)

lemma fitsI:
  "batch x = 1 \<or> batch x = B \<Longrightarrow> height x = 1 \<or> height x = H \<Longrightarrow>
   width x = 1 \<or> width x = W \<Longrightarrow> channels x = 1 \<or> channels x = C \<Longrightarrow> fits x B H W C"
  by (simp add: fits_def)

lemma bdim_axis_left: "m = 1 \<or> m = bdim m n"
  by (simp add: bdim_def)

lemma bdim_axis_right: "bcompat m n \<Longrightarrow> n = 1 \<or> n = bdim m n"
  by (auto simp: bdim_def bcompat_def)

lemma bdim_axis_fits:
  "m = 1 \<or> m = D \<Longrightarrow> n = 1 \<or> n = D \<Longrightarrow> bcompat m n \<and> (bdim m n = 1 \<or> bdim m n = D)"
  by (auto simp: bdim_def bcompat_def)

lemma broadcast_op_Inr:
  assumes "broadcast_op f x y = Inr r"
  shows "elem r b i j c = f (bread x b i j c) (bread y b i j c)"
    and "bread r b i j c = f (bread x b i j c) (bread y b i j c)"
    and "fits x (batch r) (height r) (width r) (channels r)"
    and "fits y (batch r) (height r) (width r) (channels r)"
proof -
  have ok: "bcompat (batch x) (batch y) \<and> bcompat (height x) (height y)
      \<and> bcompat (width x) (width y) \<and> bcompat (channels x) (channels y)"
    using assms unfolding broadcast_op_def by (simp split: if_splits)
  then have r: "r = \<lparr>batch = bdim (batch x) (batch y), height = bdim (height x) (height y),
                width = bdim (width x) (width y), channels = bdim (channels x) (channels y),
                elem = (\<lambda>b i j c. f (bread x b i j c) (bread y b i j c))\<rparr>"
    using assms unfolding broadcast_op_def by simp
  show "elem r b i j c = f (bread x b i j c) (bread y b i j c)"
    by (simp add: r)
  show "bread r b i j c = f (bread x b i j c) (bread y b i j c)"
    using ok by (simp add: r bread_def bidx_bdim_left bidx_bdim_right)
  show "fits x (batch r) (height r) (width r) (channels r)"
    by (rule fitsI) (simp_all only: r gtensor.simps bdim_axis_left)
  show "fits y (batch r) (height r) (width r) (channels r)"
    using ok by (intro fitsI) (simp_all only: r gtensor.simps bdim_axis_right)
qed

lemma broadcast_op_fits:
  assumes "fits x B H W C" and "fits y B H W C"
  shows "\<exists>r. broadcast_op f x y = Inr r \<and> fits r B H W C"
proof -
  have b: "bcompat (batch x) (batch y) \<and> (bdim (batch x) (batch y) = 1 \<or> bdim (batch x) (batch y) = B)"
    using assms by (intro bdim_axis_fits) (simp_all add: fits_def)
  have h: "bcompat (height x) (height y) \<and> (bdim (height x) (height y) = 1 \<or> bdim (height x) (height y) = H)"
    using assms by (intro bdim_axis_fits) (simp_all add: fits_def)
  have w: "bcompat (width x) (width y) \<and> (bdim (width x) (width y) = 1 \<or> bdim (width x) (width y) = W)"
    using assms by (intro bdim_axis_fits) (simp_all add: fits_def)
  have c: "bcompat (channels x) (channels y) \<and> (bdim (channels x) (channels y) = 1 \<or> bdim (channels x) (channels y) = C)"
    using assms by (intro bdim_axis_fits) (simp_all add: fits_def)
  show ?thesis
    using b h w c by (simp add: broadcast_op_def fits_def)
qed

lemma axis_trans: "m = 1 \<or> m = n \<Longrightarrow> n = 1 \<or> n = D \<Longrightarrow> m = 1 \<or> m = (D::nat)"
  by auto

lemma fits_trans:
  assumes xr: "fits x (batch r) (height r) (width r) (channels r)" and rs: "fits r B H W C"
  shows "fits x B H W C"
proof (rule fitsI)
  show "batch x = 1 \<or> batch x = B"
    by (rule axis_trans [OF fitsD(1) [OF xr] fitsD(1) [OF rs]])
  show "height x = 1 \<or> height x = H"
    by (rule axis_trans [OF fitsD(2) [OF xr] fitsD(2) [OF rs]])
  show "width x = 1 \<or> width x = W"
    by (rule axis_trans [OF fitsD(3) [OF xr] fitsD(3) [OF rs]])
  show "channels x = 1 \<or> channels x = C"
    by (rule axis_trans [OF fitsD(4) [OF xr] fitsD(4) [OF rs]])
qed

lemma axis_inside: "m = 1 \<or> m = n \<Longrightarrow> k < n \<Longrightarrow> bidx m k < m"
  by (auto simp: bidx_def)

lemma fits_inside:
  assumes xr: "fits x (batch r) (height r) (width r) (channels r)" and ins: "inside r b i j c"
  shows "inside x (bidx (batch x) b) (bidx (height x) i) (bidx (width x) j) (bidx (channels x) c)"
proof -
  from ins have k: "b < batch r" "i < height r" "j < width r" "c < channels r"
    by (simp_all add: inside_def)
  show ?thesis
    unfolding inside_def
    using axis_inside [OF fitsD(1) [OF xr] k(1)] axis_inside [OF fitsD(2) [OF xr] k(2)]
      axis_inside [OF fitsD(3) [OF xr] k(3)] axis_inside [OF fitsD(4) [OF xr] k(4)]
    by simp
qed

lemma same_dims_fits: "same_dims x B H W C \<Longrightarrow> fits x B H W C"
  by (simp add: same_dims_def fits_def)

lemma same_dims_inside:
  "same_dims x B H W C \<Longrightarrow> inside x b i j c \<longleftrightarrow> b < B \<and> i < H \<and> j < W \<and> c < C"
  by (simp add: same_dims_def inside_def)

lemma fits_time_index: "fits x B 1 1 1 \<Longrightarrow> fits x B H W C"
  by (simp add: fits_def)

lemma bdim_full_right: "m = 1 \<or> m = D \<Longrightarrow> bcompat m D \<and> bdim m D = D"
  by (auto simp: bcompat_def bdim_def)

lemma broadcast_op_full_right:
  assumes x: "fits x B H W C" and y: "same_dims y B H W C"
  shows "\<exists>r. broadcast_op f x y = Inr r \<and> same_dims r B H W C
           \<and> (\<forall>b i j c. elem r b i j c = f (bread x b i j c) (bread y b i j c))"
proof -
  have d: "batch y = B" "height y = H" "width y = W" "channels y = C"
    using y by (simp_all add: same_dims_def)
  note a = bdim_full_right [OF fitsD(1) [OF x]] bdim_full_right [OF fitsD(2) [OF x]]
    bdim_full_right [OF fitsD(3) [OF x]] bdim_full_right [OF fitsD(4) [OF x]]
  show ?thesis
    using a by (simp add: broadcast_op_def d same_dims_def)
qed

lemma tensor_map_simps [simp]:
  "batch (tensor_map g x) = batch x" "height (tensor_map g x) = height x"
  "width (tensor_map g x) = width x" "channels (tensor_map g x) = channels x"
  "elem (tensor_map g x) b i j c = g (elem x b i j c)"
  "bread (tensor_map g x) b i j c = g (bread x b i j c)"
  "fits (tensor_map g x) B H W C = fits x B H W C"
  "inside (tensor_map g x) b i j c = inside x b i j c"
  by (simp_all add: tensor_map_def bread_def fits_def inside_def)

lemma scalar_simps [simp]:
  "batch (scalar_minus k x) = batch x" "height (scalar_minus k x) = height x"
  "width (scalar_minus k x) = width x" "channels (scalar_minus k x) = channels x"
  "elem (scalar_minus k x) b i j c = k - elem x b i j c"
  "bread (scalar_minus k x) b i j c = k - bread x b i j c"
  "fits (scalar_minus k x) B H W C = fits x B H W C"
  "batch (scalar_times k x) = batch x" "height (scalar_times k x) = height x"
  "width (scalar_times k x) = width x" "channels (scalar_times k x) = channels x"
  "elem (scalar_times k x) b i j c = k * elem x b i j c"
  "bread (scalar_times k x) b i j c = k * bread x b i j c"
  "fits (scalar_times k x) B H W C = fits x B H W C"
  "batch (plus_scalar x k) = batch x" "height (plus_scalar x k) = height x"
  "width (plus_scalar x k) = width x" "channels (plus_scalar x k) = channels x"
  "elem (plus_scalar x k) b i j c = elem x b i j c + k"
  "bread (plus_scalar x k) b i j c = bread x b i j c + k"
  "fits (plus_scalar x k) B H W C = fits x B H W C"
  "inside (plus_scalar x k) b i j c = inside x b i j c"
  by (simp_all add: scalar_minus_def scalar_times_def plus_scalar_def)

lemma full_simps [simp]:
  "batch (full B H W C v) = B" "height (full B H W C v) = H" "width (full B H W C v) = W"
  "channels (full B H W C v) = C" "elem (full B H W C v) b i j c = v"
  "bread (full B H W C v) b i j c = v"
  by (simp_all add: full_def bread_def)

lemma bread_inside: "inside x b i j c \<Longrightarrow> bread x b i j c = elem x b i j c"
  by (auto simp: inside_def bread_def bidx_def)

lemma Conv2D_call_dims [simp]:
  "batch (Conv2D_call self x) = batch x" "height (Conv2D_call self x) = height x"
  "width (Conv2D_call self x) = width x" "channels (Conv2D_call self x) = filters self"
  "elem (Conv2D_call self x) = response self x"
  by (simp_all add: Conv2D_call_def)

lemma LeakyReLU_call_dims [simp]:
  "batch (LeakyReLU_call alpha x) = batch x" "height (LeakyReLU_call alpha x) = height x"
  "width (LeakyReLU_call alpha x) = width x" "channels (LeakyReLU_call alpha x) = channels x"
  "elem (LeakyReLU_call alpha x) b i j c = (if 0 \<le> elem x b i j c then elem x b i j c else alpha * elem x b i j c)"
  by (simp_all add: LeakyReLU_call_def)

lemma slice_channels_simps [simp]:
  "batch (slice_channels lo hi x) = batch x" "height (slice_channels lo hi x) = height x"
  "width (slice_channels lo hi x) = width x"
  "channels (slice_channels lo hi x) = min hi (channels x) - min lo (channels x)"
  "elem (slice_channels lo hi x) b i j c = elem x b i j (lo + c)"
  by (simp_all add: slice_channels_def)

lemma tf_pad_bottom_right:
  assumes "0 \<le> dh" and "0 \<le> dw"
  shows "tf_pad x ((0, 0), (0, dh), (0, dw), (0, 0)) =
     Inr \<lparr>batch = batch x, height = height x + nat dh, width = width x + nat dw,
          channels = channels x,
          elem = (\<lambda>b i j c. if b < batch x \<and> i < height x \<and> j < width x \<and> c < channels x
                    then elem x b i j c else 0)\<rparr>"
  using assms by (simp add: tf_pad_def cong: if_cong)

lemma tf_pad_negative:
  "dh < 0 \<or> dw < 0 \<Longrightarrow> tf_pad x ((0, 0), (0, dh), (0, dw), (0, 0)) = Inl NegativePadding"
  by (auto simp: tf_pad_def)

lemma concat_axis3_dims:
  assumes "xs \<noteq> []" and "\<forall>x \<in> set xs. batch x = B \<and> height x = H \<and> width x = W"
  shows "\<exists>r. concat_axis3 xs = Inr r \<and> batch r = B \<and> height r = H \<and> width r = W
           \<and> channels r = sum_list (map channels xs)"
  using assms
proof (induction xs rule: concat_axis3.induct)
  case 1
  then show ?case by simp
next
  case (2 x)
  then show ?case by simp
next
  case (3 x y ys)
  have x: "batch x = B" "height x = H" "width x = W"
    using "3.prems"(2) by simp_all
  have rest: "\<forall>z \<in> set (y # ys). batch z = B \<and> height z = H \<and> width z = W"
    using "3.prems"(2) by simp
  have "y # ys \<noteq> []" by simp
  from "3.IH" [OF this rest] obtain r where r: "concat_axis3 (y # ys) = Inr r"
    and d: "batch r = B" "height r = H" "width r = W"
    and c: "channels r = sum_list (map channels (y # ys))"
    by blast
  have "concat_axis3 (x # y # ys) =
      Inr \<lparr>batch = batch x, height = height x, width = width x,
           channels = channels x + channels r,
           elem = (\<lambda>b i j c. if c < channels x then elem x b i j c
                              else elem r b i j (c - channels x))\<rparr>"
    unfolding concat_axis3.simps(3) r bindR_Inr by (simp add: x d)
  then show ?case
    by (simp add: x c)
qed

lemma BackWarp_call_build [simp]:
  "BackWarp_call (BackWarp_build dense_image_warp) img flow = dense_image_warp img flow"
  by (simp add: BackWarp_call_def BackWarp_build_def)

lemma arithmetic_in_simps [simp]:
  "batch (scalar_minus_in A k x) = batch x" "height (scalar_minus_in A k x) = height x"
  "width (scalar_minus_in A k x) = width x" "channels (scalar_minus_in A k x) = channels x"
  "elem (scalar_minus_in A k x) b i j c = ar_sub A (ar_const A k) (elem x b i j c)"
  "bread (scalar_minus_in A k x) b i j c = ar_sub A (ar_const A k) (bread x b i j c)"
  "fits (scalar_minus_in A k x) B H W C = fits x B H W C"
  "batch (plus_scalar_in A x k) = batch x" "height (plus_scalar_in A x k) = height x"
  "width (plus_scalar_in A x k) = width x" "channels (plus_scalar_in A x k) = channels x"
  "elem (plus_scalar_in A x k) b i j c = ar_add A (elem x b i j c) (ar_const A k)"
  "bread (plus_scalar_in A x k) b i j c = ar_add A (bread x b i j c) (ar_const A k)"
  "fits (plus_scalar_in A x k) B H W C = fits x B H W C"
  by (simp_all add: scalar_minus_in_def plus_scalar_in_def)

section \<open>The sigmoid in \<^verbatim>\<open>float32\<close>\<close>

lemma logistic_range: "0 < 1 / (1 + exp (- v)) \<and> 1 / (1 + exp (- v)) < 1" for v :: real
proof -
  have "0 < exp (- v)" by simp
  then show ?thesis by (simp add: field_simps add_pos_pos)
qed

lemma float32_round_half_to_one:
  assumes lo: "1 / 2 \<le> x" and hi: "x < 1"
  shows "float32_round x = of_int (round (x * 2 ^ 24)) / 2 ^ 24"
proof -
  have pos: "0 < x" using lo by linarith
  have "(2::real) powr of_int (- 1) \<le> x \<and> x < 2 powr of_int (- 1 + 1)"
    using lo hi by (simp add: powr_minus_divide)
  then have e: "\<lfloor>log 2 x\<rfloor> = - 1"
    using floor_log_eq_powr_iff [of x 2 "- 1"] pos by simp
  have u: "(2::real) powr - 24 = 1 / 2 ^ 24"
    by (simp add: powr_neg_numeral)
  show ?thesis
    using pos by (simp add: float32_round_def e Let_def u)
qed

lemma float32_round_unit_interval:
  assumes pos: "0 < x" and hi: "x < 1"
  shows "0 \<le> float32_round x \<and> float32_round x \<le> 1"
proof -
  define e0 where "e0 = \<lfloor>log 2 x\<rfloor>"
  define e where "e = max (- 126) e0"
  define u where "u = (2::real) powr of_int (e - 23)"
  have r: "float32_round x = of_int (round (x / u)) * u"
    using pos by (simp add: float32_round_def Let_def e_def e0_def u_def)
  have upos: "0 < u" by (simp add: u_def)
  have "log 2 x < 0" using pos hi by simp
  then have "e0 < 0" unfolding e0_def by (simp add: floor_less_iff)
  then have e_le: "e \<le> - 1" by (simp add: e_def)
  have e_ge: "e0 \<le> e" by (simp add: e_def)
  have "x < 2 powr of_int (e0 + 1)"
    using floor_log_eq_powr_iff [of x 2 e0] pos by (simp add: e0_def)
  also have "\<dots> \<le> 2 powr of_int (e + 1)"
    using e_ge by (intro powr_mono) simp_all
  finally have xlt: "x < 2 powr of_int (e + 1)" .
  have split: "(2::real) powr of_int (e + 1) = 2 ^ 24 * u"
  proof -
    have "of_int (e + 1) = (24::real) + of_int (e - 23)" by simp
    then have "(2::real) powr of_int (e + 1) = 2 powr 24 * 2 powr of_int (e - 23)"
      by (simp only: powr_add)
    then show ?thesis by (simp add: u_def)
  qed
  have q: "x / u < 2 ^ 24"
    using xlt upos unfolding split by (simp add: pos_divide_less_eq)
  have q0: "0 \<le> x / u" using pos upos by simp
  have n0: "0 \<le> round (x / u)"
    using q0 by (simp add: round_def)
  have "round (x / u) \<le> 2 ^ 24"
  proof -
    have "x / u + 1 / 2 < of_int (2 ^ 24 + 1)" using q by simp
    then have "\<lfloor>x / u + 1 / 2\<rfloor> < 2 ^ 24 + 1" by (simp only: floor_less_iff)
    then show ?thesis by (simp add: round_def)
  qed
  then have "(of_int (round (x / u)) :: real) \<le> 2 ^ 24"
    by (metis of_int_le_iff of_int_numeral of_int_power)
  then have "of_int (round (x / u)) * u \<le> 2 ^ 24 * u"
    using upos by simp
  also have "\<dots> = 2 powr of_int (e + 1)" by (rule split [symmetric])
  also have "\<dots> \<le> 2 powr 0"
    using e_le by (intro powr_mono) simp_all
  finally have up: "of_int (round (x / u)) * u \<le> 1" by simp
  have "0 \<le> of_int (round (x / u)) * u"
    using n0 upos by simp
  with up show ?thesis by (simp add: r)
qed

lemma sigmoid_zero: "sigmoid 0 = 1 / 2"
proof -
  have "float32_round (1 / 2) = of_int (round ((1 / 2 :: real) * 2 ^ 24)) / 2 ^ 24"
    by (rule float32_round_half_to_one) simp_all
  also have "(1 / 2 :: real) * 2 ^ 24 = of_int (2 ^ 23)" by simp
  also have "round (of_int (2 ^ 23) :: real) = 2 ^ 23" by (simp only: round_of_int)
  finally show ?thesis by (simp add: sigmoid_def)
qed

lemma sigmoid_range: "0 \<le> sigmoid v \<and> sigmoid v \<le> 1"
  unfolding sigmoid_def using logistic_range [of v] by (intro float32_round_unit_interval) simp_all

lemma exp_100_large: "(2::real) ^ 25 \<le> exp 100"
proof -
  have "(2::real) \<le> exp 1" using exp_ge_add_one_self [of 1] by simp
  then have "(2::real) ^ 100 \<le> exp 1 ^ 100" by (intro power_mono) simp_all
  also have "\<dots> = exp 100" by (simp add: exp_of_nat_mult [symmetric])
  finally have "(2::real) ^ 100 \<le> exp 100" .
  moreover have "(2::real) ^ 25 \<le> 2 ^ 100" by simp
  ultimately show ?thesis by linarith
qed

lemma sigmoid_saturates: "sigmoid 100 = 1"
proof -
  define x :: real where "x = 1 / (1 + exp (- 100))"
  define d :: real where "d = exp (- 100)"
  have dpos: "0 < d" by (simp add: d_def)
  have "d = 1 / exp 100" by (simp add: d_def exp_minus field_simps)
  also have "\<dots> \<le> 1 / 2 ^ 25"
    using exp_100_large by (intro divide_left_mono) simp_all
  finally have dle: "d \<le> 1 / 2 ^ 25" .
  have x: "x = 1 / (1 + d)" by (simp add: x_def d_def)
  have xlt: "x < 1" using dpos by (simp add: x)
  have "1 - x = d / (1 + d)" using dpos by (simp add: x field_simps)
  also have "\<dots> \<le> d" using dpos by (simp add: field_simps)
  finally have gap: "1 - x \<le> 1 / 2 ^ 25" using dle by linarith
  have xhalf: "1 / 2 \<le> x" using gap by simp
  have "round (x * 2 ^ 24) = 2 ^ 24"
  proof (rule round_unique)
    show "x * 2 ^ 24 - 1 / 2 < of_int (2 ^ 24)" using xlt by simp
    have "(1 - x) * 2 ^ 24 \<le> 1 / 2 ^ 25 * 2 ^ 24"
      using gap by (intro mult_right_mono) simp_all
    then show "of_int (2 ^ 24) \<le> x * 2 ^ 24 + 1 / 2" by (simp add: algebra_simps)
  qed
  then have "float32_round x = 1"
    by (simp add: float32_round_half_to_one [OF xhalf xlt])
  then show ?thesis by (simp add: sigmoid_def x_def)
qed


section \<open>BackWarp\<close>

lemma clamp_index_inside: "k < n \<Longrightarrow> clamp_index n (int k) = k"
  by (simp add: clamp_index_def)

lemma bilinear_at_pixel:
  assumes "i < height img" and "j < width img"
  shows "bilinear img b (real i) (real j) c = elem img b i j c"
proof -
  have "\<lfloor>real i\<rfloor> = int i" "\<lfloor>real j\<rfloor> = int j"
    by simp_all
  then show ?thesis
    using assms by (simp add: bilinear_def pixel_def clamp_index_inside Let_def)
qed

text \<open>
  C5. \<^verbatim>\<open>BackWarp.call\<close> hands the image and the flow to the warp stored by
  \<^verbatim>\<open>BackWarp.build\<close> and returns its result. With the warp as the description has it, the
  result has the shape of the image, its element \<open>(b, i, j, c)\<close> is the bilinear
  interpolation of the image at \<open>(i - flow[b,i,j,0], j - flow[b,i,j,1])\<close>, and when the flow
  has the size of the image, two channels and is zero everywhere, every pixel of the result
  is the pixel of the image.
\<close>

theorem BackWarp_call_bilinear:
  "\<exists>out. BackWarp_call (BackWarp_build tfa_dense_image_warp) img flow = Inr out
     \<and> same_dims out (batch img) (height img) (width img) (channels img)
     \<and> (\<forall>b i j c. elem out b i j c =
           bilinear img b (real i - elem flow b i j 0) (real j - elem flow b i j 1) c)
     \<and> (same_dims flow (batch img) (height img) (width img) 2
          \<and> (\<forall>b i j c. inside flow b i j c \<longrightarrow> elem flow b i j c = 0)
         \<longrightarrow> (\<forall>b i j c. inside img b i j c \<longrightarrow> elem out b i j c = elem img b i j c))"
proof -
  define out where "out = \<lparr>batch = batch img, height = height img, width = width img,
          channels = channels img,
          elem = (\<lambda>b i j c.
            bilinear img b (real i - elem flow b i j 0) (real j - elem flow b i j 1) c)\<rparr>"
  have call: "BackWarp_call (BackWarp_build tfa_dense_image_warp) img flow = Inr out"
    by (simp add: tfa_dense_image_warp_def out_def)
  have dims: "same_dims out (batch img) (height img) (width img) (channels img)"
    by (simp add: same_dims_def out_def)
  have val: "elem out b i j c =
           bilinear img b (real i - elem flow b i j 0) (real j - elem flow b i j 1) c" for b i j c
    by (simp add: out_def)
  have zero: "elem out b i j c = elem img b i j c"
    if fd: "same_dims flow (batch img) (height img) (width img) 2"
      and fz: "\<forall>b i j c. inside flow b i j c \<longrightarrow> elem flow b i j c = 0"
      and ins: "inside img b i j c" for b i j c
  proof -
    from ins have k: "b < batch img" "i < height img" "j < width img"
      by (simp_all add: inside_def)
    then have "inside flow b i j 0" "inside flow b i j 1"
      using fd by (simp_all add: same_dims_inside)
    with fz have "elem flow b i j 0 = 0" "elem flow b i j 1 = 0"
      by blast+
    then show ?thesis
      using bilinear_at_pixel [OF k(2) k(3)] by (simp add: val)
  qed
  from call dims val zero show ?thesis
    by blast
qed

text \<open>
  An instance: the ramp image of shape \<^verbatim>\<open>[1, 3, 4, 1]\<close> under the zero flow; pixel
  \<open>(0, 2, 3, 0)\<close> keeps its value 23.
\<close>

theorem BackWarp_call_bilinear_witness:
  "same_dims (full 1 3 4 2 0) (batch (ramp 1 3 4 1)) (height (ramp 1 3 4 1)) (width (ramp 1 3 4 1)) 2
   \<and> inside (ramp 1 3 4 1) 0 2 3 0
   \<and> (\<exists>out. BackWarp_call (BackWarp_build tfa_dense_image_warp) (ramp 1 3 4 1) (full 1 3 4 2 0) = Inr out
         \<and> elem out 0 2 3 0 = 23)"
proof -
  have fd: "same_dims (full 1 3 4 2 0) (batch (ramp 1 3 4 1)) (height (ramp 1 3 4 1))
              (width (ramp 1 3 4 1)) 2"
    by (simp add: same_dims_def ramp_def)
  have fz: "\<forall>b i j c. inside (full 1 3 4 2 0) b i j c \<longrightarrow> elem (full 1 3 4 2 0) b i j c = 0"
    by simp
  have ins: "inside (ramp 1 3 4 1) 0 2 3 0"
    by (simp add: inside_def ramp_def)
  from BackWarp_call_bilinear [of "ramp 1 3 4 1" "full 1 3 4 2 0"] obtain out
    where call: "BackWarp_call (BackWarp_build tfa_dense_image_warp) (ramp 1 3 4 1) (full 1 3 4 2 0)
                  = Inr out"
      and zero: "same_dims (full 1 3 4 2 0) (batch (ramp 1 3 4 1)) (height (ramp 1 3 4 1))
              (width (ramp 1 3 4 1)) 2
          \<and> (\<forall>b i j c. inside (full 1 3 4 2 0) b i j c \<longrightarrow> elem (full 1 3 4 2 0) b i j c = 0)
         \<longrightarrow> (\<forall>b i j c. inside (ramp 1 3 4 1) b i j c \<longrightarrow> elem out b i j c = elem (ramp 1 3 4 1) b i j c)"
    by (elim exE conjE) (rule that)
  from zero fd fz ins have "elem out 0 2 3 0 = elem (ramp 1 3 4 1) 0 2 3 0"
    by blast
  then have "elem out 0 2 3 0 = 23"
    by (simp add: ramp_def)
  with call fd ins show ?thesis
    by blast
qed


section \<open>OpticalFlow: the intermediate flows\<close>

text \<open>
  What lines 158 to 163 compute when the flows have the same shape and the time index
  broadcasts to it. The cross term of \<^verbatim>\<open>f_t1_t\<close> is subtracted with the coefficient
  \<^verbatim>\<open>t0_value\<close>, that is, added with the coefficient \<^verbatim>\<open>(1-t)*t\<close>.
\<close>

lemma OpticalFlow_flows_value:
  assumes t: "fits t_indeces B H W C" and f01: "same_dims f_01 B H W C"
    and f10: "same_dims f_10 B H W C"
  shows "\<exists>f_t0_t f_t1_t. OpticalFlow_flows f_01 f_10 t_indeces = Inr (f_t0_t, f_t1_t)
      \<and> same_dims f_t0_t B H W C \<and> same_dims f_t1_t B H W C
      \<and> (\<forall>b i j c. elem f_t0_t b i j c =
            (- 1 * (1 - bread t_indeces b i j c)) * bread t_indeces b i j c * bread f_01 b i j c
            + bread t_indeces b i j c * bread t_indeces b i j c * bread f_10 b i j c)
      \<and> (\<forall>b i j c. elem f_t1_t b i j c =
            (1 - bread t_indeces b i j c) * (1 - bread t_indeces b i j c) * bread f_01 b i j c
            - (- 1 * (1 - bread t_indeces b i j c)) * bread t_indeces b i j c * bread f_10 b i j c)"
proof -
  have t': "fits (scalar_times (- 1) (scalar_minus 1 t_indeces)) B H W C"
    and t'': "fits (scalar_minus 1 t_indeces) B H W C"
    using t by simp_all
  from broadcast_op_fits [OF t' t] obtain t0_value
    where t0: "tf_mul (scalar_times (- 1) (scalar_minus 1 t_indeces)) t_indeces = Inr t0_value"
      and ft0: "fits t0_value B H W C"
    unfolding tf_mul_def by blast
  from broadcast_op_fits [OF t t] obtain t1_value
    where t1: "tf_mul t_indeces t_indeces = Inr t1_value" and ft1: "fits t1_value B H W C"
    unfolding tf_mul_def by blast
  from broadcast_op_fits [OF t'' t''] obtain t1_value'
    where t1': "tf_mul (scalar_minus 1 t_indeces) (scalar_minus 1 t_indeces) = Inr t1_value'"
      and ft1': "fits t1_value' B H W C"
    unfolding tf_mul_def by blast
  from broadcast_op_full_right [OF ft0 f01] obtain l0
    where l0: "tf_mul t0_value f_01 = Inr l0" and dl0: "same_dims l0 B H W C"
      and vl0: "\<And>b i j c. elem l0 b i j c = bread t0_value b i j c * bread f_01 b i j c"
    unfolding tf_mul_def by blast
  from broadcast_op_full_right [OF ft1 f10] obtain r0
    where r0: "tf_mul t1_value f_10 = Inr r0" and dr0: "same_dims r0 B H W C"
      and vr0: "\<And>b i j c. elem r0 b i j c = bread t1_value b i j c * bread f_10 b i j c"
    unfolding tf_mul_def by blast
  from broadcast_op_full_right [OF same_dims_fits [OF dl0] dr0] obtain f_t0_t
    where s0: "tf_add l0 r0 = Inr f_t0_t" and d0: "same_dims f_t0_t B H W C"
      and v0: "\<And>b i j c. elem f_t0_t b i j c = bread l0 b i j c + bread r0 b i j c"
    unfolding tf_add_def by blast
  from broadcast_op_full_right [OF ft1' f01] obtain l1
    where l1: "tf_mul t1_value' f_01 = Inr l1" and dl1: "same_dims l1 B H W C"
      and vl1: "\<And>b i j c. elem l1 b i j c = bread t1_value' b i j c * bread f_01 b i j c"
    unfolding tf_mul_def by blast
  from broadcast_op_full_right [OF ft0 f10] obtain r1
    where r1: "tf_mul t0_value f_10 = Inr r1" and dr1: "same_dims r1 B H W C"
      and vr1: "\<And>b i j c. elem r1 b i j c = bread t0_value b i j c * bread f_10 b i j c"
    unfolding tf_mul_def by blast
  from broadcast_op_full_right [OF same_dims_fits [OF dl1] dr1] obtain f_t1_t
    where s1: "tf_sub l1 r1 = Inr f_t1_t" and d1: "same_dims f_t1_t B H W C"
      and v1: "\<And>b i j c. elem f_t1_t b i j c = bread l1 b i j c - bread r1 b i j c"
    unfolding tf_sub_def by blast
  note T0 = broadcast_op_Inr(2) [OF t0 [unfolded tf_mul_def]]
  note T1 = broadcast_op_Inr(2) [OF t1 [unfolded tf_mul_def]]
  note T1' = broadcast_op_Inr(2) [OF t1' [unfolded tf_mul_def]]
  note L0 = broadcast_op_Inr(2) [OF l0 [unfolded tf_mul_def]]
  note R0 = broadcast_op_Inr(2) [OF r0 [unfolded tf_mul_def]]
  note L1 = broadcast_op_Inr(2) [OF l1 [unfolded tf_mul_def]]
  note R1 = broadcast_op_Inr(2) [OF r1 [unfolded tf_mul_def]]
  have call: "OpticalFlow_flows f_01 f_10 t_indeces = Inr (f_t0_t, f_t1_t)"
    by (simp add: OpticalFlow_flows_def t0 t1 t1' l0 r0 s0 l1 r1 s1)
  have e0: "elem f_t0_t b i j c =
            (- 1 * (1 - bread t_indeces b i j c)) * bread t_indeces b i j c * bread f_01 b i j c
            + bread t_indeces b i j c * bread t_indeces b i j c * bread f_10 b i j c" for b i j c
    by (simp only: v0 L0 R0 T0 T1 scalar_simps)
  have e1: "elem f_t1_t b i j c =
            (1 - bread t_indeces b i j c) * (1 - bread t_indeces b i j c) * bread f_01 b i j c
            - (- 1 * (1 - bread t_indeces b i j c)) * bread t_indeces b i j c * bread f_10 b i j c"
    for b i j c
    by (simp only: v1 L1 R1 T0 T1' scalar_simps)
  from call d0 d1 e0 e1 show ?thesis by blast
qed

text \<open>
  Against the equations of the paper: \<^verbatim>\<open>f_t0_t\<close> is the first equation at every element;
  \<^verbatim>\<open>f_t1_t\<close> exceeds the second by twice the cross term \<^verbatim>\<open>t*(1-t)*f_10\<close>.
\<close>

lemma OpticalFlow_flows_against_paper:
  assumes t: "fits t_indeces B H W C" and f01: "same_dims f_01 B H W C"
    and f10: "same_dims f_10 B H W C"
  shows "\<exists>f_t0_t f_t1_t. OpticalFlow_flows f_01 f_10 t_indeces = Inr (f_t0_t, f_t1_t)
      \<and> (\<forall>b i j c. elem f_t0_t b i j c =
            paper_f_t0 (bread t_indeces b i j c) (bread f_01 b i j c) (bread f_10 b i j c))
      \<and> (\<forall>b i j c. elem f_t1_t b i j c =
            paper_f_t1 (bread t_indeces b i j c) (bread f_01 b i j c) (bread f_10 b i j c)
            + 2 * (bread t_indeces b i j c * (1 - bread t_indeces b i j c) * bread f_10 b i j c))"
proof -
  from OpticalFlow_flows_value [OF t f01 f10] obtain f_t0_t f_t1_t
    where call: "OpticalFlow_flows f_01 f_10 t_indeces = Inr (f_t0_t, f_t1_t)"
      and e0: "\<And>b i j c. elem f_t0_t b i j c =
            (- 1 * (1 - bread t_indeces b i j c)) * bread t_indeces b i j c * bread f_01 b i j c
            + bread t_indeces b i j c * bread t_indeces b i j c * bread f_10 b i j c"
      and e1: "\<And>b i j c. elem f_t1_t b i j c =
            (1 - bread t_indeces b i j c) * (1 - bread t_indeces b i j c) * bread f_01 b i j c
            - (- 1 * (1 - bread t_indeces b i j c)) * bread t_indeces b i j c * bread f_10 b i j c"
    by blast
  have p0: "elem f_t0_t b i j c =
      paper_f_t0 (bread t_indeces b i j c) (bread f_01 b i j c) (bread f_10 b i j c)" for b i j c
    unfolding e0 paper_f_t0_def power2_eq_square by (simp add: algebra_simps)
  have p1: "elem f_t1_t b i j c =
      paper_f_t1 (bread t_indeces b i j c) (bread f_01 b i j c) (bread f_10 b i j c)
      + 2 * (bread t_indeces b i j c * (1 - bread t_indeces b i j c) * bread f_10 b i j c)"
    for b i j c
    unfolding e1 paper_f_t1_def power2_eq_square by (simp add: algebra_simps)
  from call p0 p1 show ?thesis by blast
qed

text \<open>
  C1. The claim gives \<^verbatim>\<open>f_t1_t = (1-t)^2*f_01 - t*(1-t)*f_10\<close>, the equation of the
  paper. The code subtracts \<^verbatim>\<open>t0_value * f_10\<close>, and \<^verbatim>\<open>t0_value\<close> is already
  \<^verbatim>\<open>-(1-t)*t\<close>, so the cross term enters with the opposite sign. With \<^verbatim>\<open>t = 1/2\<close>,
  \<^verbatim>\<open>f_01 = 0\<close> and \<^verbatim>\<open>f_10 = 1\<close> everywhere (flows of shape \<^verbatim>\<open>[1, 32, 32, 2]\<close>, time
  index of shape \<^verbatim>\<open>[1, 1, 1, 1]\<close>) the code returns \<^verbatim>\<open>f_t1_t = 1/4\<close> where the equation
  gives \<^verbatim>\<open>-1/4\<close>; \<^verbatim>\<open>f_t0_t\<close> agrees with its equation. All values involved are exact
  in binary floating point.
\<close>

theorem OpticalFlow_flows_cross_term_sign:
  "\<exists>f_t0_t f_t1_t.
     OpticalFlow_flows (full 1 32 32 2 0) (full 1 32 32 2 1) (full 1 1 1 1 (1 / 2)) = Inr (f_t0_t, f_t1_t)
     \<and> elem f_t1_t 0 0 0 0 = 1 / 4 \<and> paper_f_t1 (1 / 2) 0 1 = - (1 / 4)
     \<and> elem f_t0_t 0 0 0 0 = paper_f_t0 (1 / 2) 0 1"
  by (simp add: OpticalFlow_flows_def tf_mul_def tf_add_def tf_sub_def broadcast_op_def
      scalar_times_def scalar_minus_def tensor_map_def full_def bcompat_def bdim_def bread_def bidx_def
      paper_f_t1_def paper_f_t0_def power2_eq_square)


section \<open>Output: the divisor and the blend\<close>

lemma Output_z_value:
  assumes t: "fits t_indeces B H W C" and v0: "fits v_t0 B H W C" and v1: "fits v_t1 B H W C"
  shows "\<exists>z. Output_z v_t0 v_t1 t_indeces = Inr z \<and> fits z B H W C
           \<and> fits t_indeces (batch z) (height z) (width z) (channels z)
           \<and> fits v_t0 (batch z) (height z) (width z) (channels z)
           \<and> fits v_t1 (batch z) (height z) (width z) (channels z)
           \<and> (\<forall>b i j c. bread z b i j c =
                 (1 - bread t_indeces b i j c) * bread v_t0 b i j c
                 + bread t_indeces b i j c * bread v_t1 b i j c + 1 / 10 ^ 12)"
proof -
  from t v0 obtain l where l: "tf_mul (scalar_minus 1 t_indeces) v_t0 = Inr l" "fits l B H W C"
    unfolding tf_mul_def using broadcast_op_fits [of "scalar_minus 1 t_indeces" B H W C v_t0] by auto
  from t v1 obtain r where r: "tf_mul t_indeces v_t1 = Inr r" "fits r B H W C"
    unfolding tf_mul_def using broadcast_op_fits [of t_indeces B H W C v_t1] by auto
  from l r obtain s where s: "tf_add l r = Inr s" "fits s B H W C"
    unfolding tf_add_def using broadcast_op_fits [of l B H W C r] by auto
  note L = broadcast_op_Inr [OF l(1) [unfolded tf_mul_def]]
  note R = broadcast_op_Inr [OF r(1) [unfolded tf_mul_def]]
  note S = broadcast_op_Inr [OF s(1) [unfolded tf_add_def]]
  have z: "Output_z v_t0 v_t1 t_indeces = Inr (plus_scalar s (1 / 10 ^ 12))"
    by (simp add: Output_z_def l r s)
  have ft: "fits t_indeces (batch s) (height s) (width s) (channels s)"
    using fits_trans [OF R(3) S(4)] .
  have fv0: "fits v_t0 (batch s) (height s) (width s) (channels s)"
    using fits_trans [OF L(4) S(3)] .
  have fv1: "fits v_t1 (batch s) (height s) (width s) (channels s)"
    using fits_trans [OF R(4) S(4)] .
  show ?thesis
    using z s(2) ft fv0 fv1 by (simp add: S(2) L(2) R(2))
qed

text \<open>
  C10. When the three operands broadcast to a common shape, the time index lies in
  \<open>[0, 1]\<close> at every element and both visibility maps are non-negative at every element,
  \<^verbatim>\<open>Output.call\<close> computes its divisor \<^verbatim>\<open>z\<close> without raising and every element of
  \<^verbatim>\<open>z\<close> is strictly positive, so the division that follows has no zero divisor.
\<close>

theorem Output_z_positive:
  assumes t: "fits t_indeces B H W C" and v0: "fits v_t0 B H W C" and v1: "fits v_t1 B H W C"
    and t01: "\<forall>b i j c. inside t_indeces b i j c \<longrightarrow> 0 \<le> elem t_indeces b i j c \<and> elem t_indeces b i j c \<le> 1"
    and v0pos: "\<forall>b i j c. inside v_t0 b i j c \<longrightarrow> 0 \<le> elem v_t0 b i j c"
    and v1pos: "\<forall>b i j c. inside v_t1 b i j c \<longrightarrow> 0 \<le> elem v_t1 b i j c"
  shows "\<exists>z. Output_z v_t0 v_t1 t_indeces = Inr z
           \<and> (\<forall>b i j c. inside z b i j c \<longrightarrow> 0 < elem z b i j c)"
proof -
  from Output_z_value [OF t v0 v1] obtain z where z: "Output_z v_t0 v_t1 t_indeces = Inr z"
    and ft: "fits t_indeces (batch z) (height z) (width z) (channels z)"
    and fv0: "fits v_t0 (batch z) (height z) (width z) (channels z)"
    and fv1: "fits v_t1 (batch z) (height z) (width z) (channels z)"
    and val: "\<And>b i j c. bread z b i j c =
                 (1 - bread t_indeces b i j c) * bread v_t0 b i j c
                 + bread t_indeces b i j c * bread v_t1 b i j c + 1 / 10 ^ 12"
    by blast
  have "0 < elem z b i j c" if ins: "inside z b i j c" for b i j c
  proof -
    have "0 \<le> bread t_indeces b i j c \<and> bread t_indeces b i j c \<le> 1"
      using t01 fits_inside [OF ft ins] by (simp add: bread_def)
    moreover have "0 \<le> bread v_t0 b i j c"
      using v0pos fits_inside [OF fv0 ins] by (simp add: bread_def)
    moreover have "0 \<le> bread v_t1 b i j c"
      using v1pos fits_inside [OF fv1 ins] by (simp add: bread_def)
    ultimately have "0 \<le> (1 - bread t_indeces b i j c) * bread v_t0 b i j c
                 + bread t_indeces b i j c * bread v_t1 b i j c"
      by (intro add_nonneg_nonneg mult_nonneg_nonneg) simp_all
    moreover have "(0::real) < 1 / 10 ^ 12"
      by simp
    ultimately have "0 < bread z b i j c"
      unfolding val by linarith
    then show ?thesis
      by (simp add: bread_inside [OF ins])
  qed
  with z show ?thesis by blast
qed

text \<open>
  An instance: time index \<open>1/2\<close> of shape \<^verbatim>\<open>[1, 1, 1, 1]\<close>, visibility maps \<open>1/4\<close> and
  \<open>3/4\<close> of shape \<^verbatim>\<open>[1, 2, 2, 1]\<close>.
\<close>

theorem Output_z_positive_witness:
  "fits (full 1 1 1 1 (1 / 2)) 1 2 2 1 \<and> fits (full 1 2 2 1 (1 / 4)) 1 2 2 1
   \<and> fits (full 1 2 2 1 (3 / 4)) 1 2 2 1
   \<and> (\<exists>z. Output_z (full 1 2 2 1 (1 / 4)) (full 1 2 2 1 (3 / 4)) (full 1 1 1 1 (1 / 2)) = Inr z
         \<and> (\<forall>b i j c. inside z b i j c \<longrightarrow> 0 < elem z b i j c))"
proof -
  have t: "fits (full 1 1 1 1 (1 / 2)) 1 2 2 1" and v0: "fits (full 1 2 2 1 (1 / 4)) 1 2 2 1"
    and v1: "fits (full 1 2 2 1 (3 / 4)) 1 2 2 1"
    by (simp_all add: fits_def)
  show ?thesis
    using t v0 v1 Output_z_positive [OF t v0 v1] by simp
qed

lemma bdim_full_left: "n = 1 \<or> n = D \<Longrightarrow> bcompat D n \<and> bdim D n = D"
  by (auto simp: bcompat_def bdim_def)

lemma broadcast_op_full_left:
  assumes x: "same_dims x B H W C" and y: "fits y B H W C"
  shows "\<exists>r. broadcast_op f x y = Inr r \<and> same_dims r B H W C
           \<and> (\<forall>b i j c. elem r b i j c = f (bread x b i j c) (bread y b i j c))"
proof -
  have d: "batch x = B" "height x = H" "width x = W" "channels x = C"
    using x by (simp_all add: same_dims_def)
  note a = bdim_full_left [OF fitsD(1) [OF y]] bdim_full_left [OF fitsD(2) [OF y]]
    bdim_full_left [OF fitsD(3) [OF y]] bdim_full_left [OF fitsD(4) [OF y]]
  show ?thesis
    using a by (simp add: broadcast_op_def d same_dims_def)
qed

text \<open>
  The divisor of \<^verbatim>\<open>Output.call\<close> in an arbitrary arithmetic, and its agreement with the
  divisor in exact arithmetic.
\<close>

lemma Output_z_in_value:
  assumes t: "fits t_indeces B H W C" and v0: "fits v_t0 B H W C" and v1: "fits v_t1 B H W C"
  shows "\<exists>z. Output_z_in A v_t0 v_t1 t_indeces = Inr z \<and> fits z B H W C
           \<and> (\<forall>b i j c. bread z b i j c =
                 ar_add A
                   (ar_add A
                     (ar_mul A (ar_sub A (ar_const A 1) (bread t_indeces b i j c)) (bread v_t0 b i j c))
                     (ar_mul A (bread t_indeces b i j c) (bread v_t1 b i j c)))
                   (ar_const A (1 / 10 ^ 12)))"
proof -
  have t': "fits (scalar_minus_in A 1 t_indeces) B H W C"
    using t by simp
  from broadcast_op_fits [OF t' v0] obtain l
    where l: "tf_mul_in A (scalar_minus_in A 1 t_indeces) v_t0 = Inr l" and fl: "fits l B H W C"
    unfolding tf_mul_in_def by blast
  from broadcast_op_fits [OF t v1] obtain r
    where r: "tf_mul_in A t_indeces v_t1 = Inr r" and fr: "fits r B H W C"
    unfolding tf_mul_in_def by blast
  from broadcast_op_fits [OF fl fr] obtain s
    where s: "tf_add_in A l r = Inr s" and fs: "fits s B H W C"
    unfolding tf_add_in_def by blast
  note L = broadcast_op_Inr(2) [OF l [unfolded tf_mul_in_def]]
  note R = broadcast_op_Inr(2) [OF r [unfolded tf_mul_in_def]]
  note S = broadcast_op_Inr(2) [OF s [unfolded tf_add_in_def]]
  have z: "Output_z_in A v_t0 v_t1 t_indeces = Inr (plus_scalar_in A s (1 / 10 ^ 12))"
    by (simp add: Output_z_in_def l r s)
  show ?thesis
    using z fs by (simp add: S L R)
qed

lemma Output_z_in_exact:
  "Output_z_in exact_arithmetic v_t0 v_t1 t_indeces = Output_z v_t0 v_t1 t_indeces"
  by (simp add: Output_z_in_def Output_z_def tf_mul_in_def tf_add_in_def tf_mul_def tf_add_def
      scalar_minus_in_def plus_scalar_in_def scalar_minus_def plus_scalar_def exact_arithmetic_def)

text \<open>
  C2. \<^verbatim>\<open>Output.call\<close> is read over an arbitrary arithmetic \<open>A\<close> of the elements: the
  conversion of a Python number and the four operations, of which nothing is assumed. When
  the two warps return \<^verbatim>\<open>g_i0_ft0\<close> and \<^verbatim>\<open>g_i1_ft1\<close> of shape \<^verbatim>\<open>[B, H, W, C]\<close> and the
  time index and the two visibility maps broadcast to that shape, the call returns a tensor
  of shape \<^verbatim>\<open>[B, H, W, C]\<close> whose every element is
  \<^verbatim>\<open>((1-t)*v_t0*g0 + t*v_t1*g1) / ((1-t)*v_t0 + t*v_t1 + 1e-12)\<close>, computed in \<open>A\<close> with
  the operations in the order of lines 203 to 205 and each operand read at that index under
  broadcasting. In the \<^verbatim>\<open>float32\<close> arithmetic of the engine this is the value the code
  returns, rounding included, also where the divisor is zero.
\<close>

theorem Output_call_blend:
  assumes w0: "dense_image_warp frames_0 f_t0 = Inr g_i0_ft0"
    and w1: "dense_image_warp frames_1 f_t1 = Inr g_i1_ft1"
    and t: "fits t_indeces B H W C" and v0: "fits v_t0 B H W C" and v1: "fits v_t1 B H W C"
    and g0: "same_dims g_i0_ft0 B H W C" and g1: "same_dims g_i1_ft1 B H W C"
  shows "\<exists>frame_pred.
           Output_call A (Output_build dense_image_warp)
             (frames_0, f_t0, v_t0, frames_1, f_t1, v_t1, t_indeces) = Inr frame_pred
         \<and> same_dims frame_pred B H W C
         \<and> (\<forall>b i j c. elem frame_pred b i j c =
               ar_div A
                 (ar_add A
                   (ar_mul A
                     (ar_mul A (ar_sub A (ar_const A 1) (bread t_indeces b i j c)) (bread v_t0 b i j c))
                     (bread g_i0_ft0 b i j c))
                   (ar_mul A
                     (ar_mul A (bread t_indeces b i j c) (bread v_t1 b i j c))
                     (bread g_i1_ft1 b i j c)))
                 (ar_add A
                   (ar_add A
                     (ar_mul A (ar_sub A (ar_const A 1) (bread t_indeces b i j c)) (bread v_t0 b i j c))
                     (ar_mul A (bread t_indeces b i j c) (bread v_t1 b i j c)))
                   (ar_const A (1 / 10 ^ 12))))"
proof -
  from Output_z_in_value [OF t v0 v1, of A] obtain z
    where z: "Output_z_in A v_t0 v_t1 t_indeces = Inr z" and fz: "fits z B H W C"
      and zval: "\<And>b i j c. bread z b i j c =
                 ar_add A
                   (ar_add A
                     (ar_mul A (ar_sub A (ar_const A 1) (bread t_indeces b i j c)) (bread v_t0 b i j c))
                     (ar_mul A (bread t_indeces b i j c) (bread v_t1 b i j c)))
                   (ar_const A (1 / 10 ^ 12))"
    by blast
  have t': "fits (scalar_minus_in A 1 t_indeces) B H W C"
    using t by simp
  from broadcast_op_fits [OF t' v0] obtain l
    where l: "tf_mul_in A (scalar_minus_in A 1 t_indeces) v_t0 = Inr l" and fl: "fits l B H W C"
    unfolding tf_mul_in_def by blast
  from broadcast_op_full_right [OF fl g0] obtain l'
    where l': "tf_mul_in A l g_i0_ft0 = Inr l'" and dl': "same_dims l' B H W C"
    unfolding tf_mul_in_def by blast
  from broadcast_op_fits [OF t v1] obtain r
    where r: "tf_mul_in A t_indeces v_t1 = Inr r" and fr: "fits r B H W C"
    unfolding tf_mul_in_def by blast
  from broadcast_op_full_right [OF fr g1] obtain r'
    where r': "tf_mul_in A r g_i1_ft1 = Inr r'" and dr': "same_dims r' B H W C"
    unfolding tf_mul_in_def by blast
  from broadcast_op_full_right [OF same_dims_fits [OF dl'] dr'] obtain s
    where s: "tf_add_in A l' r' = Inr s" and ds: "same_dims s B H W C"
    unfolding tf_add_in_def by blast
  from broadcast_op_full_left [OF ds fz] obtain p
    where p: "tf_divide_in A s z = Inr p" and dp: "same_dims p B H W C"
    unfolding tf_divide_in_def by blast
  note L = broadcast_op_Inr(2) [OF l [unfolded tf_mul_in_def]]
  note L' = broadcast_op_Inr(2) [OF l' [unfolded tf_mul_in_def]]
  note R = broadcast_op_Inr(2) [OF r [unfolded tf_mul_in_def]]
  note R' = broadcast_op_Inr(2) [OF r' [unfolded tf_mul_in_def]]
  note S = broadcast_op_Inr(2) [OF s [unfolded tf_add_in_def]]
  note P = broadcast_op_Inr(1) [OF p [unfolded tf_divide_in_def]]
  have call: "Output_call A (Output_build dense_image_warp)
             (frames_0, f_t0, v_t0, frames_1, f_t1, v_t1, t_indeces) = Inr p"
    by (simp add: Output_call_def Output_build_def w0 w1 z l l' r r' s p)
  have "elem p b i j c =
               ar_div A
                 (ar_add A
                   (ar_mul A
                     (ar_mul A (ar_sub A (ar_const A 1) (bread t_indeces b i j c)) (bread v_t0 b i j c))
                     (bread g_i0_ft0 b i j c))
                   (ar_mul A
                     (ar_mul A (bread t_indeces b i j c) (bread v_t1 b i j c))
                     (bread g_i1_ft1 b i j c)))
                 (ar_add A
                   (ar_add A
                     (ar_mul A (ar_sub A (ar_const A 1) (bread t_indeces b i j c)) (bread v_t0 b i j c))
                     (ar_mul A (bread t_indeces b i j c) (bread v_t1 b i j c)))
                   (ar_const A (1 / 10 ^ 12)))" for b i j c
    by (simp only: P S L' L R' R zval arithmetic_in_simps)
  with call dp show ?thesis by blast
qed

text \<open>
  An instance in the arithmetic of expressions: warped frames of shape \<^verbatim>\<open>[1, 2, 2, 3]\<close>
  filled with 1 and with 3, visibility maps of shape \<^verbatim>\<open>[1, 2, 2, 1]\<close> filled with \<open>1/4\<close>
  and \<open>3/4\<close>, time index \<open>1/2\<close> of shape \<^verbatim>\<open>[1, 1, 1, 1]\<close>. The element of the result at
  index \<open>(0, 1, 1, 2)\<close> is the expression
  \<^verbatim>\<open>((1 - 1/2) * 1/4 * 1 + 1/2 * 3/4 * 3) / ((1 - 1/2) * 1/4 + 1/2 * 3/4 + 1e-12)\<close>.
\<close>

theorem Output_call_blend_witness:
  "keep_image (full_num 1 2 2 3 1) (full_num 1 2 2 2 0) = Inr (full_num 1 2 2 3 1)
   \<and> keep_image (full_num 1 2 2 3 3) (full_num 1 2 2 2 0) = Inr (full_num 1 2 2 3 3)
   \<and> fits (full_num 1 1 1 1 (1 / 2)) 1 2 2 3 \<and> fits (full_num 1 2 2 1 (1 / 4)) 1 2 2 3
   \<and> fits (full_num 1 2 2 1 (3 / 4)) 1 2 2 3 \<and> same_dims (full_num 1 2 2 3 1) 1 2 2 3
   \<and> same_dims (full_num 1 2 2 3 3) 1 2 2 3
   \<and> (\<exists>frame_pred.
         Output_call symbolic (Output_build keep_image)
           (full_num 1 2 2 3 1, full_num 1 2 2 2 0, full_num 1 2 2 1 (1 / 4),
            full_num 1 2 2 3 3, full_num 1 2 2 2 0, full_num 1 2 2 1 (3 / 4),
            full_num 1 1 1 1 (1 / 2)) = Inr frame_pred
         \<and> same_dims frame_pred 1 2 2 3
         \<and> elem frame_pred 0 1 1 2 =
             Div (Add (Mul (Mul (Sub (Num 1) (Num (1 / 2))) (Num (1 / 4))) (Num 1))
                      (Mul (Mul (Num (1 / 2)) (Num (3 / 4))) (Num 3)))
                 (Add (Add (Mul (Sub (Num 1) (Num (1 / 2))) (Num (1 / 4)))
                           (Mul (Num (1 / 2)) (Num (3 / 4))))
                      (Num (1 / 10 ^ 12))))"
proof -
  have w0: "keep_image (full_num 1 2 2 3 1) (full_num 1 2 2 2 0) = Inr (full_num 1 2 2 3 1)"
    and w1: "keep_image (full_num 1 2 2 3 3) (full_num 1 2 2 2 0) = Inr (full_num 1 2 2 3 3)"
    by (simp_all add: keep_image_def)
  have t: "fits (full_num 1 1 1 1 (1 / 2)) 1 2 2 3" and v0: "fits (full_num 1 2 2 1 (1 / 4)) 1 2 2 3"
    and v1: "fits (full_num 1 2 2 1 (3 / 4)) 1 2 2 3"
    by (simp_all add: fits_def full_num_def)
  have g0: "same_dims (full_num 1 2 2 3 1) 1 2 2 3" and g1: "same_dims (full_num 1 2 2 3 3) 1 2 2 3"
    by (simp_all add: same_dims_def full_num_def)
  have rd: "bread (full_num B H W C v) b i j c = Num v" for B H W C v b i j c
    by (simp add: full_num_def bread_def)
  from Output_call_blend [where dense_image_warp = keep_image and A = symbolic,
      OF w0 w1 t v0 v1 g0 g1]
  obtain frame_pred where
    call: "Output_call symbolic (Output_build keep_image)
           (full_num 1 2 2 3 1, full_num 1 2 2 2 0, full_num 1 2 2 1 (1 / 4),
            full_num 1 2 2 3 3, full_num 1 2 2 2 0, full_num 1 2 2 1 (3 / 4),
            full_num 1 1 1 1 (1 / 2)) = Inr frame_pred"
    and dims: "same_dims frame_pred 1 2 2 3"
    and val: "\<forall>b i j c. elem frame_pred b i j c =
               ar_div symbolic
                 (ar_add symbolic
                   (ar_mul symbolic
                     (ar_mul symbolic (ar_sub symbolic (ar_const symbolic 1)
                        (bread (full_num 1 1 1 1 (1 / 2)) b i j c))
                        (bread (full_num 1 2 2 1 (1 / 4)) b i j c))
                     (bread (full_num 1 2 2 3 1) b i j c))
                   (ar_mul symbolic
                     (ar_mul symbolic (bread (full_num 1 1 1 1 (1 / 2)) b i j c)
                        (bread (full_num 1 2 2 1 (3 / 4)) b i j c))
                     (bread (full_num 1 2 2 3 3) b i j c)))
                 (ar_add symbolic
                   (ar_add symbolic
                     (ar_mul symbolic (ar_sub symbolic (ar_const symbolic 1)
                        (bread (full_num 1 1 1 1 (1 / 2)) b i j c))
                        (bread (full_num 1 2 2 1 (1 / 4)) b i j c))
                     (ar_mul symbolic (bread (full_num 1 1 1 1 (1 / 2)) b i j c)
                        (bread (full_num 1 2 2 1 (3 / 4)) b i j c)))
                   (ar_const symbolic (1 / 10 ^ 12)))"
    by blast
  have "elem frame_pred 0 1 1 2 =
             Div (Add (Mul (Mul (Sub (Num 1) (Num (1 / 2))) (Num (1 / 4))) (Num 1))
                      (Mul (Mul (Num (1 / 2)) (Num (3 / 4))) (Num 3)))
                 (Add (Add (Mul (Sub (Num 1) (Num (1 / 2))) (Num (1 / 4)))
                           (Mul (Num (1 / 2)) (Num (3 / 4))))
                      (Num (1 / 10 ^ 12)))"
    by (simp add: val rd symbolic_def)
  with call dims w0 w1 t v0 v1 g0 g1 show ?thesis by blast
qed

text \<open>
  Conversely, on every input tuple on which \<^verbatim>\<open>Output.call\<close> returns, both warps have
  returned and the result is the blend: the call has no other result.
\<close>

lemma Output_z_in_Inr:
  assumes "Output_z_in A v_t0 v_t1 t_indeces = Inr z"
  shows "bread z b i j c =
           ar_add A
             (ar_add A
               (ar_mul A (ar_sub A (ar_const A 1) (bread t_indeces b i j c)) (bread v_t0 b i j c))
               (ar_mul A (bread t_indeces b i j c) (bread v_t1 b i j c)))
             (ar_const A (1 / 10 ^ 12))"
proof -
  from assms obtain l r s where l: "tf_mul_in A (scalar_minus_in A 1 t_indeces) v_t0 = Inr l"
    and r: "tf_mul_in A t_indeces v_t1 = Inr r" and s: "tf_add_in A l r = Inr s"
    and z: "z = plus_scalar_in A s (1 / 10 ^ 12)"
    unfolding Output_z_in_def bindR_eq_Inr by auto
  note L = broadcast_op_Inr(2) [OF l [unfolded tf_mul_in_def]]
  note R = broadcast_op_Inr(2) [OF r [unfolded tf_mul_in_def]]
  note S = broadcast_op_Inr(2) [OF s [unfolded tf_add_in_def]]
  show ?thesis
    by (simp only: z S L R arithmetic_in_simps)
qed

lemma Output_call_Inr:
  assumes "Output_call A (Output_build dense_image_warp)
             (frames_0, f_t0, v_t0, frames_1, f_t1, v_t1, t_indeces) = Inr frame_pred"
  shows "\<exists>g_i0_ft0 g_i1_ft1.
           dense_image_warp frames_0 f_t0 = Inr g_i0_ft0
         \<and> dense_image_warp frames_1 f_t1 = Inr g_i1_ft1
         \<and> (\<forall>b i j c. elem frame_pred b i j c =
               ar_div A
                 (ar_add A
                   (ar_mul A
                     (ar_mul A (ar_sub A (ar_const A 1) (bread t_indeces b i j c)) (bread v_t0 b i j c))
                     (bread g_i0_ft0 b i j c))
                   (ar_mul A
                     (ar_mul A (bread t_indeces b i j c) (bread v_t1 b i j c))
                     (bread g_i1_ft1 b i j c)))
                 (ar_add A
                   (ar_add A
                     (ar_mul A (ar_sub A (ar_const A 1) (bread t_indeces b i j c)) (bread v_t0 b i j c))
                     (ar_mul A (bread t_indeces b i j c) (bread v_t1 b i j c)))
                   (ar_const A (1 / 10 ^ 12))))"
proof -
  from assms obtain g_i0_ft0 g_i1_ft1 z l l' r r' s
    where w0: "dense_image_warp frames_0 f_t0 = Inr g_i0_ft0"
      and w1: "dense_image_warp frames_1 f_t1 = Inr g_i1_ft1"
      and z: "Output_z_in A v_t0 v_t1 t_indeces = Inr z"
      and l: "tf_mul_in A (scalar_minus_in A 1 t_indeces) v_t0 = Inr l"
      and l': "tf_mul_in A l g_i0_ft0 = Inr l'"
      and r: "tf_mul_in A t_indeces v_t1 = Inr r"
      and r': "tf_mul_in A r g_i1_ft1 = Inr r'"
      and s: "tf_add_in A l' r' = Inr s"
      and p: "tf_divide_in A s z = Inr frame_pred"
    unfolding Output_call_def Output_build_def prod.case bindR_eq_Inr
    by (auto simp: BackWarp_call_def BackWarp_build_def)
  note L = broadcast_op_Inr(2) [OF l [unfolded tf_mul_in_def]]
  note L' = broadcast_op_Inr(2) [OF l' [unfolded tf_mul_in_def]]
  note R = broadcast_op_Inr(2) [OF r [unfolded tf_mul_in_def]]
  note R' = broadcast_op_Inr(2) [OF r' [unfolded tf_mul_in_def]]
  note S = broadcast_op_Inr(2) [OF s [unfolded tf_add_in_def]]
  note P = broadcast_op_Inr(1) [OF p [unfolded tf_divide_in_def]]
  note Z = Output_z_in_Inr [OF z]
  have "elem frame_pred b i j c =
               ar_div A
                 (ar_add A
                   (ar_mul A
                     (ar_mul A (ar_sub A (ar_const A 1) (bread t_indeces b i j c)) (bread v_t0 b i j c))
                     (bread g_i0_ft0 b i j c))
                   (ar_mul A
                     (ar_mul A (bread t_indeces b i j c) (bread v_t1 b i j c))
                     (bread g_i1_ft1 b i j c)))
                 (ar_add A
                   (ar_add A
                     (ar_mul A (ar_sub A (ar_const A 1) (bread t_indeces b i j c)) (bread v_t0 b i j c))
                     (ar_mul A (bread t_indeces b i j c) (bread v_t1 b i j c)))
                   (ar_const A (1 / 10 ^ 12)))" for b i j c
    by (simp only: P S L' L R' R Z arithmetic_in_simps)
  with w0 w1 show ?thesis by blast
qed


section \<open>Encoder and Decoder: shapes, padding and concatenation\<close>

lemma Encoder_call_dims:
  assumes "2 \<le> height x" and "2 \<le> width x"
  shows "\<exists>y. Encoder_call self x = Inr y \<and> batch y = batch x \<and> height y = height x div 2
           \<and> width y = width x div 2 \<and> channels y = filters (enc_conv2 self)"
  using assms by (simp add: Encoder_call_def AveragePooling2D_call_def Let_def)

lemma Decoder_build_fields [simp]:
  "dec_conv1 (Decoder_build n resize w1 w2) = \<lparr>filters = n, kernel_size = 3, response = w1\<rparr>"
  "dec_conv2 (Decoder_build n resize w1 w2) = \<lparr>filters = n, kernel_size = 3, response = w2\<rparr>"
  "dec_interpolation (Decoder_build n resize w1 w2) = resize"
  "dec_leaky_relu (Decoder_build n resize w1 w2) = 1 / 10"
  by (simp_all add: Decoder_build_def)

lemma UpSampling2D_call_Inr:
  assumes "1 \<le> height x" and "1 \<le> width x"
  shows "UpSampling2D_call resize x =
     Inr \<lparr>batch = batch x, height = 2 * height x, width = 2 * width x, channels = channels x,
          elem = resize x\<rparr>"
  using assms by (simp add: UpSampling2D_call_def)

lemma pad_amount: "2 * a \<le> b \<Longrightarrow> 2 * a + nat (int b - 2 * int a) = b"
  by linarith

lemma half_bound: "2 * k \<le> n \<Longrightarrow> k \<le> n div 2" for k n :: nat
  by linarith

lemma Decoder_call_dims:
  assumes "batch x = batch skip" and "1 \<le> height x" and "1 \<le> width x"
    and "2 * height x \<le> height skip" and "2 * width x \<le> width skip"
  shows "\<exists>y. Decoder_call self x skip = Inr y \<and> batch y = batch skip \<and> height y = height skip
           \<and> width y = width skip \<and> channels y = filters (dec_conv2 self)"
proof -
  define u where "u = LeakyReLU_call (dec_leaky_relu self) (Conv2D_call (dec_conv1 self)
       \<lparr>batch = batch x, height = 2 * height x, width = 2 * width x, channels = channels x,
        elem = dec_interpolation self x\<rparr>)"
  have ud: "batch u = batch x" "height u = 2 * height x" "width u = 2 * width x"
    by (simp_all add: u_def)
  have dh: "0 \<le> int (height skip) - int (height u)" and dw: "0 \<le> int (width skip) - int (width u)"
    using assms by (simp_all add: ud)
  have "Decoder_call self x skip =
      bindR (tf_pad u ((0, 0), (0, int (height skip) - int (height u)),
                       (0, int (width skip) - int (width u)), (0, 0))) (\<lambda>x.
        bindR (concat_axis3 [x, skip]) (\<lambda>x.
          Inr (LeakyReLU_call (dec_leaky_relu self) (Conv2D_call (dec_conv2 self) x))))"
    unfolding Decoder_call_def UpSampling2D_call_Inr [OF assms(2,3)] bindR_Inr Let_def u_def ..
  then show ?thesis
    using assms unfolding tf_pad_bottom_right [OF dh dw]
    by (simp add: ud pad_amount)
qed

lemma Decoder_call_too_small:
  assumes "1 \<le> height x" and "1 \<le> width x"
    and "height skip < 2 * height x \<or> width skip < 2 * width x"
  shows "Decoder_call self x skip = Inl NegativePadding"
proof -
  define u where "u = LeakyReLU_call (dec_leaky_relu self) (Conv2D_call (dec_conv1 self)
       \<lparr>batch = batch x, height = 2 * height x, width = 2 * width x, channels = channels x,
        elem = dec_interpolation self x\<rparr>)"
  have ud: "height u = 2 * height x" "width u = 2 * width x"
    by (simp_all add: u_def)
  have neg: "int (height skip) - int (height u) < 0 \<or> int (width skip) - int (width u) < 0"
    using assms(3) by (auto simp: ud)
  have "Decoder_call self x skip =
      bindR (tf_pad u ((0, 0), (0, int (height skip) - int (height u)),
                       (0, int (width skip) - int (width u)), (0, 0))) (\<lambda>x.
        bindR (concat_axis3 [x, skip]) (\<lambda>x.
          Inr (LeakyReLU_call (dec_leaky_relu self) (Conv2D_call (dec_conv2 self) x))))"
    unfolding Decoder_call_def UpSampling2D_call_Inr [OF assms(1,2)] bindR_Inr Let_def u_def ..
  then show ?thesis
    by (simp only: tf_pad_negative [OF neg] bindR_Inl)
qed

text \<open>An empty \<^verbatim>\<open>x\<close> is rejected by the upsampling, whatever \<^verbatim>\<open>skip\<close> is.\<close>

lemma Decoder_call_empty:
  assumes "height x = 0 \<or> width x = 0"
  shows "Decoder_call self x skip = Inl EmptyImage"
  using assms by (auto simp: Decoder_call_def UpSampling2D_call_def)

text \<open>
  C4, as stated for every input pair, fails: with \<^verbatim>\<open>x\<close> of shape \<^verbatim>\<open>[1, 2, 2, 1]\<close> and
  \<^verbatim>\<open>skip\<close> of shape \<^verbatim>\<open>[1, 3, 3, 1]\<close> the upsampled tensor is 4 by 4, \<^verbatim>\<open>x_delta\<close> and
  \<^verbatim>\<open>y_delta\<close> are \<open>-1\<close>, and \<^verbatim>\<open>tf.pad\<close> raises: nothing is padded, concatenated or
  returned.
\<close>

theorem Decoder_call_raises_on_small_skip:
  "Decoder_call (Decoder_build 1 (const_response 0) (const_response 0) (const_response 0))
     (full 1 2 2 1 0) (full 1 3 3 1 0) = Inl NegativePadding"
  by (rule Decoder_call_too_small) simp_all

text \<open>
  C4, amended. For every decoder with at least one filter and every pair \<^verbatim>\<open>[x, skip]\<close> of
  non-empty tensors with equal batch sizes whose \<^verbatim>\<open>skip\<close> is at least twice as high and
  twice as wide as \<^verbatim>\<open>x\<close>, \<^verbatim>\<open>Decoder.call\<close> upsamples \<^verbatim>\<open>x\<close> to twice its height and
  width (the tensor \<open>u\<close>, whose elements are those the resize kernel of the engine produces),
  applies the first convolution and LeakyReLU(0.1), pads the result with zeros at the bottom
  and at the right by \<^verbatim>\<open>skip.height - 2*x.height\<close> rows and \<^verbatim>\<open>skip.width - 2*x.width\<close>
  columns, so that its spatial dimensions are those of \<^verbatim>\<open>skip\<close> and its other elements are
  unchanged, puts the channels of \<^verbatim>\<open>skip\<close> after its own \<^verbatim>\<open>filters\<close> channels, and
  returns the second convolution and LeakyReLU(0.1) of that tensor.
\<close>

theorem Decoder_call_pad_concat:
  assumes B: "batch x = batch skip"
    and N: "1 \<le> batch x" "1 \<le> height x" "1 \<le> width x" "1 \<le> channels x"
    and S: "1 \<le> channels skip" and F: "1 \<le> n"
    and H: "2 * height x \<le> height skip" and W: "2 * width x \<le> width skip"
  shows "\<exists>u. UpSampling2D_call resize x = Inr u
     \<and> same_dims u (batch x) (2 * height x) (2 * width x) (channels x)
     \<and> elem u = resize x
     \<and> Decoder_call (Decoder_build n resize w1 w2) x skip =
       Inr (LeakyReLU_call (1 / 10)
         (Conv2D_call \<lparr>filters = n, kernel_size = 3, response = w2\<rparr>
           \<lparr>batch = batch skip, height = height skip, width = width skip,
            channels = n + channels skip,
            elem = (\<lambda>b i j c.
              if c < n
              then (if b < batch x \<and> i < 2 * height x \<and> j < 2 * width x
                    then elem (LeakyReLU_call (1 / 10)
                           (Conv2D_call \<lparr>filters = n, kernel_size = 3, response = w1\<rparr> u)) b i j c
                    else 0)
              else elem skip b i j (c - n))\<rparr>))"
proof -
  define u where "u = \<lparr>batch = batch x, height = 2 * height x, width = 2 * width x,
       channels = channels x, elem = resize x\<rparr>"
  define a where "a = LeakyReLU_call (1 / 10)
       (Conv2D_call \<lparr>filters = n, kernel_size = 3, response = w1\<rparr> u)"
  have up: "UpSampling2D_call resize x = Inr u"
    unfolding u_def by (rule UpSampling2D_call_Inr [OF N(2,3)])
  have ud: "same_dims u (batch x) (2 * height x) (2 * width x) (channels x)" "elem u = resize x"
    by (simp_all add: u_def same_dims_def)
  have ad: "batch a = batch x" "height a = 2 * height x" "width a = 2 * width x" "channels a = n"
    by (simp_all add: a_def u_def)
  have dh: "0 \<le> int (height skip) - int (height a)" and dw: "0 \<le> int (width skip) - int (width a)"
    using H W by (simp_all add: ad)
  define padded where "padded = \<lparr>batch = batch a, height = height a + nat (int (height skip) - int (height a)),
          width = width a + nat (int (width skip) - int (width a)), channels = channels a,
          elem = (\<lambda>b i j c. if b < batch a \<and> i < height a \<and> j < width a \<and> c < channels a
                    then elem a b i j c else 0)\<rparr>"
  have pad: "tf_pad a ((0, 0), (0, int (height skip) - int (height a)),
         (0, int (width skip) - int (width a)), (0, 0)) = Inr padded"
    unfolding padded_def by (rule tf_pad_bottom_right [OF dh dw])
  have pdims: "batch padded = batch skip" "height padded = height skip" "width padded = width skip"
      "channels padded = n"
    using B H W by (simp_all add: padded_def ad pad_amount)
  have pelem: "elem padded b i j c =
          (if b < batch x \<and> i < 2 * height x \<and> j < 2 * width x \<and> c < n
           then elem a b i j c else 0)" for b i j c
    by (simp add: padded_def ad)
  have cat: "concat_axis3 [padded, skip] =
      Inr \<lparr>batch = batch skip, height = height skip, width = width skip,
          channels = n + channels skip,
          elem = (\<lambda>b i j c.
            if c < n
            then (if b < batch x \<and> i < 2 * height x \<and> j < 2 * width x
                  then elem a b i j c else 0)
            else elem skip b i j (c - n))\<rparr>"
    by (simp add: pdims pelem fun_eq_iff)
  have "Decoder_call (Decoder_build n resize w1 w2) x skip =
      bindR (tf_pad a ((0, 0), (0, int (height skip) - int (height a)),
                       (0, int (width skip) - int (width a)), (0, 0))) (\<lambda>x.
        bindR (concat_axis3 [x, skip]) (\<lambda>x.
          Inr (LeakyReLU_call (1 / 10)
            (Conv2D_call \<lparr>filters = n, kernel_size = 3, response = w2\<rparr> x))))"
    unfolding Decoder_call_def Decoder_build_fields up bindR_Inr Let_def a_def ..
  then have "Decoder_call (Decoder_build n resize w1 w2) x skip =
       Inr (LeakyReLU_call (1 / 10)
         (Conv2D_call \<lparr>filters = n, kernel_size = 3, response = w2\<rparr>
           \<lparr>batch = batch skip, height = height skip, width = width skip,
            channels = n + channels skip,
            elem = (\<lambda>b i j c.
              if c < n
              then (if b < batch x \<and> i < 2 * height x \<and> j < 2 * width x
                    then elem a b i j c else 0)
              else elem skip b i j (c - n))\<rparr>))"
    unfolding pad bindR_Inr cat by simp
  with up ud show ?thesis
    unfolding a_def by blast
qed

text \<open>
  An instance: \<^verbatim>\<open>x\<close> of shape \<^verbatim>\<open>[1, 1, 2, 1]\<close>, \<^verbatim>\<open>skip\<close> of shape \<^verbatim>\<open>[1, 3, 4, 2]\<close> filled
  with 7, five filters, and a first convolution that answers 1 everywhere: the upsampled
  tensor is 2 by 4, one row of zeros is added at the bottom and no column.
\<close>

theorem Decoder_call_pad_concat_witness:
  "batch (full 1 1 2 1 1) = batch (full 1 3 4 2 7)
   \<and> 1 \<le> batch (full 1 1 2 1 1) \<and> 1 \<le> height (full 1 1 2 1 1)
   \<and> 1 \<le> width (full 1 1 2 1 1) \<and> 1 \<le> channels (full 1 1 2 1 1)
   \<and> 1 \<le> channels (full 1 3 4 2 7) \<and> (1::nat) \<le> 5
   \<and> 2 * height (full 1 1 2 1 1) \<le> height (full 1 3 4 2 7)
   \<and> 2 * width (full 1 1 2 1 1) \<le> width (full 1 3 4 2 7)
   \<and> (\<exists>u. UpSampling2D_call (const_response 0) (full 1 1 2 1 1) = Inr u
         \<and> same_dims u 1 2 4 1)
   \<and> Decoder_call (Decoder_build 5 (const_response 0) (const_response 1) (const_response 0))
        (full 1 1 2 1 1) (full 1 3 4 2 7) =
      Inr (LeakyReLU_call (1 / 10)
        (Conv2D_call \<lparr>filters = 5, kernel_size = 3, response = const_response 0\<rparr>
          \<lparr>batch = 1, height = 3, width = 4, channels = 7,
           elem = (\<lambda>b i j c. if c < 5 then (if b < 1 \<and> i < 2 \<and> j < 4 then 1 else 0) else 7)\<rparr>))"
proof -
  have B: "batch (full 1 1 2 1 1) = batch (full 1 3 4 2 7)"
    and N: "1 \<le> batch (full 1 1 2 1 1)" "1 \<le> height (full 1 1 2 1 1)"
      "1 \<le> width (full 1 1 2 1 1)" "1 \<le> channels (full 1 1 2 1 1)"
    and S: "1 \<le> channels (full 1 3 4 2 7)" and F: "(1::nat) \<le> 5"
    and H: "2 * height (full 1 1 2 1 1) \<le> height (full 1 3 4 2 7)"
    and W: "2 * width (full 1 1 2 1 1) \<le> width (full 1 3 4 2 7)"
    by simp_all
  from Decoder_call_pad_concat [OF B N S F H W, of "const_response 0" "const_response 1" "const_response 0"]
  obtain u where up: "UpSampling2D_call (const_response 0) (full 1 1 2 1 1) = Inr u"
    and ud: "same_dims u (batch (full 1 1 2 1 1)) (2 * height (full 1 1 2 1 1))
               (2 * width (full 1 1 2 1 1)) (channels (full 1 1 2 1 1))"
    and call: "Decoder_call (Decoder_build 5 (const_response 0) (const_response 1) (const_response 0))
        (full 1 1 2 1 1) (full 1 3 4 2 7) =
       Inr (LeakyReLU_call (1 / 10)
         (Conv2D_call \<lparr>filters = 5, kernel_size = 3, response = const_response 0\<rparr>
           \<lparr>batch = batch (full 1 3 4 2 7), height = height (full 1 3 4 2 7),
            width = width (full 1 3 4 2 7), channels = 5 + channels (full 1 3 4 2 7),
            elem = (\<lambda>b i j c.
              if c < 5
              then (if b < batch (full 1 1 2 1 1) \<and> i < 2 * height (full 1 1 2 1 1)
                       \<and> j < 2 * width (full 1 1 2 1 1)
                    then elem (LeakyReLU_call (1 / 10)
                           (Conv2D_call \<lparr>filters = 5, kernel_size = 3, response = const_response 1\<rparr> u)) b i j c
                    else 0)
              else elem (full 1 3 4 2 7) b i j (c - 5))\<rparr>))"
    by blast
  have ud': "same_dims u 1 2 4 1"
    using ud by simp
  have call': "Decoder_call (Decoder_build 5 (const_response 0) (const_response 1) (const_response 0))
        (full 1 1 2 1 1) (full 1 3 4 2 7) =
      Inr (LeakyReLU_call (1 / 10)
        (Conv2D_call \<lparr>filters = 5, kernel_size = 3, response = const_response 0\<rparr>
          \<lparr>batch = 1, height = 3, width = 4, channels = 7,
           elem = (\<lambda>b i j c. if c < 5 then (if b < 1 \<and> i < 2 \<and> j < 4 then 1 else 0) else 7)\<rparr>))"
    unfolding call by (simp add: const_response_def cong: if_cong)
  from B N S F H W up ud' call' show ?thesis
    by blast
qed


section \<open>UNet: the order of the stages and the shape of the result\<close>

lemma UNet_build_fields [simp]:
  "unet_leaky_relu (UNet_build n resize w) = 1 / 10"
  "unet_conv1 (UNet_build n resize w) = \<lparr>filters = 32, kernel_size = 7, response = w 0\<rparr>"
  "unet_conv2 (UNet_build n resize w) = \<lparr>filters = 32, kernel_size = 7, response = w 1\<rparr>"
  "unet_encoder1 (UNet_build n resize w) = Encoder_build 64 5 (w 2) (w 3)"
  "unet_encoder2 (UNet_build n resize w) = Encoder_build 128 5 (w 4) (w 5)"
  "unet_encoder3 (UNet_build n resize w) = Encoder_build 256 3 (w 6) (w 7)"
  "unet_encoder4 (UNet_build n resize w) = Encoder_build 512 3 (w 8) (w 9)"
  "unet_encoder5 (UNet_build n resize w) = Encoder_build 512 3 (w 10) (w 11)"
  "unet_decoder1 (UNet_build n resize w) = Decoder_build 512 resize (w 12) (w 13)"
  "unet_decoder2 (UNet_build n resize w) = Decoder_build 256 resize (w 14) (w 15)"
  "unet_decoder3 (UNet_build n resize w) = Decoder_build 128 resize (w 16) (w 17)"
  "unet_decoder4 (UNet_build n resize w) = Decoder_build 64 resize (w 18) (w 19)"
  "unet_decoder5 (UNet_build n resize w) = Decoder_build 32 resize (w 20) (w 21)"
  "unet_conv3 (UNet_build n resize w) = \<lparr>filters = n, kernel_size = 3, response = w 22\<rparr>"
  by (simp_all add: UNet_build_def)

lemma encoder_chain_Cons:
  "bindR (encoder_chain (e # es) x) k =
     bindR (Encoder_call e x) (\<lambda>y. bindR (encoder_chain es y) (\<lambda>p. k (x # fst p, snd p)))"
  by (simp add: bindR_assoc case_prod_beta)

text \<open>
  C3. \<^verbatim>\<open>UNet.call\<close> on a layer made by \<^verbatim>\<open>UNet.build\<close> is the chain of stages of the
  description: the two convolutions of the stem, each followed by LeakyReLU(0.1), give
  \<^verbatim>\<open>skip1\<close>; the five encoders run in order and the input of each is kept as a skip
  tensor; the five decoders run in order, the first on the output of the last encoder, each
  with the most recent skip tensor not yet used (decoder1 with \<^verbatim>\<open>skip5\<close>, down to decoder5
  with \<^verbatim>\<open>skip1\<close>); the last convolution and LeakyReLU(0.1) close the chain. An error
  raised by a stage is the error of the call.
\<close>

theorem UNet_call_stage_order:
  "UNet_call (UNet_build out_filters resize w) inputs =
     UNet_stages (1 / 10)
       \<lparr>filters = 32, kernel_size = 7, response = w 0\<rparr>
       \<lparr>filters = 32, kernel_size = 7, response = w 1\<rparr>
       [Encoder_build 64 5 (w 2) (w 3), Encoder_build 128 5 (w 4) (w 5),
        Encoder_build 256 3 (w 6) (w 7), Encoder_build 512 3 (w 8) (w 9),
        Encoder_build 512 3 (w 10) (w 11)]
       [Decoder_build 512 resize (w 12) (w 13), Decoder_build 256 resize (w 14) (w 15),
        Decoder_build 128 resize (w 16) (w 17), Decoder_build 64 resize (w 18) (w 19),
        Decoder_build 32 resize (w 20) (w 21)]
       \<lparr>filters = out_filters, kernel_size = 3, response = w 22\<rparr> inputs"
proof -
  let ?self = "UNet_build out_filters resize w"
  have "UNet_call ?self inputs =
     UNet_stages (unet_leaky_relu ?self) (unet_conv1 ?self) (unet_conv2 ?self)
       [unet_encoder1 ?self, unet_encoder2 ?self, unet_encoder3 ?self, unet_encoder4 ?self,
        unet_encoder5 ?self]
       [unet_decoder1 ?self, unet_decoder2 ?self, unet_decoder3 ?self, unet_decoder4 ?self,
        unet_decoder5 ?self]
       (unet_conv3 ?self) inputs"
    unfolding UNet_call_def UNet_stages_def Let_def encoder_chain_Cons
    by (simp add: bindR_assoc)
  then show ?thesis
    by (simp only: UNet_build_fields)
qed

lemma UNet_call_dims_general:
  assumes H: "32 \<le> height x" and W: "32 \<le> width x"
  shows "\<exists>y. UNet_call self x = Inr y \<and> batch y = batch x \<and> height y = height x
           \<and> width y = width x \<and> channels y = filters (unet_conv3 self)"
proof -
  define skip1 where "skip1 = LeakyReLU_call (unet_leaky_relu self)
     (Conv2D_call (unet_conv2 self) (LeakyReLU_call (unet_leaky_relu self) (Conv2D_call (unet_conv1 self) x)))"
  have s1: "batch skip1 = batch x" "height skip1 = height x" "width skip1 = width x"
    by (simp_all add: skip1_def)
  have "2 \<le> height skip1" "2 \<le> width skip1" using H W s1 by simp_all
  from Encoder_call_dims [OF this, of "unet_encoder1 self"] obtain skip2
    where e1: "Encoder_call (unet_encoder1 self) skip1 = Inr skip2"
      and s2: "batch skip2 = batch x" "height skip2 = height x div 2" "width skip2 = width x div 2"
    using s1 by auto
  have b2: "16 \<le> height skip2" "16 \<le> width skip2"
    using H W s2 by (simp_all add: half_bound)
  then have "2 \<le> height skip2" "2 \<le> width skip2" by simp_all
  from Encoder_call_dims [OF this, of "unet_encoder2 self"] obtain skip3
    where e2: "Encoder_call (unet_encoder2 self) skip2 = Inr skip3"
      and s3: "batch skip3 = batch x" "height skip3 = height skip2 div 2" "width skip3 = width skip2 div 2"
    using s2 by auto
  have b3: "8 \<le> height skip3" "8 \<le> width skip3"
    using b2 s3 by (simp_all add: half_bound)
  then have "2 \<le> height skip3" "2 \<le> width skip3" by simp_all
  from Encoder_call_dims [OF this, of "unet_encoder3 self"] obtain skip4
    where e3: "Encoder_call (unet_encoder3 self) skip3 = Inr skip4"
      and s4: "batch skip4 = batch x" "height skip4 = height skip3 div 2" "width skip4 = width skip3 div 2"
    using s3 by auto
  have b4: "4 \<le> height skip4" "4 \<le> width skip4"
    using b3 s4 by (simp_all add: half_bound)
  then have "2 \<le> height skip4" "2 \<le> width skip4" by simp_all
  from Encoder_call_dims [OF this, of "unet_encoder4 self"] obtain skip5
    where e4: "Encoder_call (unet_encoder4 self) skip4 = Inr skip5"
      and s5: "batch skip5 = batch x" "height skip5 = height skip4 div 2" "width skip5 = width skip4 div 2"
    using s4 by auto
  have "2 \<le> height skip5" "2 \<le> width skip5"
    using b4 s5 by (simp_all add: half_bound)
  from Encoder_call_dims [OF this, of "unet_encoder5 self"] obtain x_enc
    where e5: "Encoder_call (unet_encoder5 self) skip5 = Inr x_enc"
      and s6: "batch x_enc = batch x" "height x_enc = height skip5 div 2" "width x_enc = width skip5 div 2"
    using s5 by auto
  have b5: "2 \<le> height skip5" "2 \<le> width skip5"
    using b4 s5 by (simp_all add: half_bound)
  have "batch x_enc = batch skip5" "1 \<le> height x_enc" "1 \<le> width x_enc"
      "2 * height x_enc \<le> height skip5" "2 * width x_enc \<le> width skip5"
    using s5 s6 b5 by (simp_all add: half_bound)
  from Decoder_call_dims [OF this, of "unet_decoder1 self"] obtain d1
    where c1: "Decoder_call (unet_decoder1 self) x_enc skip5 = Inr d1"
      and t1: "batch d1 = batch skip5" "height d1 = height skip5" "width d1 = width skip5"
    by auto
  have "batch d1 = batch skip4" "1 \<le> height d1" "1 \<le> width d1"
      "2 * height d1 \<le> height skip4" "2 * width d1 \<le> width skip4"
    using t1 s4 s5 b5 by simp_all
  from Decoder_call_dims [OF this, of "unet_decoder2 self"] obtain d2
    where c2: "Decoder_call (unet_decoder2 self) d1 skip4 = Inr d2"
      and t2: "batch d2 = batch skip4" "height d2 = height skip4" "width d2 = width skip4"
    by auto
  have "batch d2 = batch skip3" "1 \<le> height d2" "1 \<le> width d2"
      "2 * height d2 \<le> height skip3" "2 * width d2 \<le> width skip3"
    using t2 s3 s4 b4 by simp_all
  from Decoder_call_dims [OF this, of "unet_decoder3 self"] obtain d3
    where c3: "Decoder_call (unet_decoder3 self) d2 skip3 = Inr d3"
      and t3: "batch d3 = batch skip3" "height d3 = height skip3" "width d3 = width skip3"
    by auto
  have "batch d3 = batch skip2" "1 \<le> height d3" "1 \<le> width d3"
      "2 * height d3 \<le> height skip2" "2 * width d3 \<le> width skip2"
    using t3 s2 s3 b3 by simp_all
  from Decoder_call_dims [OF this, of "unet_decoder4 self"] obtain d4
    where c4: "Decoder_call (unet_decoder4 self) d3 skip2 = Inr d4"
      and t4: "batch d4 = batch skip2" "height d4 = height skip2" "width d4 = width skip2"
    by auto
  have "batch d4 = batch skip1" "1 \<le> height d4" "1 \<le> width d4"
      "2 * height d4 \<le> height skip1" "2 * width d4 \<le> width skip1"
    using t4 s1 s2 b2 by simp_all
  from Decoder_call_dims [OF this, of "unet_decoder5 self"] obtain d5
    where c5: "Decoder_call (unet_decoder5 self) d4 skip1 = Inr d5"
      and t5: "batch d5 = batch skip1" "height d5 = height skip1" "width d5 = width skip1"
    by auto
  have "UNet_call self x =
      Inr (LeakyReLU_call (unet_leaky_relu self) (Conv2D_call (unet_conv3 self) d5))"
    unfolding UNet_call_def Let_def skip1_def [symmetric]
    by (simp add: e1 e2 e3 e4 e5 c1 c2 c3 c4 c5)
  then show ?thesis
    using t5 s1 by simp
qed

lemma UNet_call_last_stage:
  assumes "UNet_call self x = Inr y"
  shows "\<exists>x_dec. y = LeakyReLU_call (unet_leaky_relu self) (Conv2D_call (unet_conv3 self) x_dec)"
  using assms unfolding UNet_call_def Let_def bindR_eq_Inr by blast

lemma Encoder_call_build_dims:
  assumes x: "same_dims x B H W C" and H: "2 \<le> H" and W: "2 \<le> W"
  shows "\<exists>y. Encoder_call (Encoder_build n k w1 w2) x = Inr y
           \<and> same_dims y B (H div 2) (W div 2) n"
proof -
  have d: "batch x = B" "height x = H" "width x = W"
    using x by (simp_all add: same_dims_def)
  have "2 \<le> height x" "2 \<le> width x"
    using H W d by simp_all
  from Encoder_call_dims [OF this, of "Encoder_build n k w1 w2"] show ?thesis
    by (simp add: d same_dims_def Encoder_build_def)
qed

lemma Decoder_call_build_dims:
  assumes x: "same_dims x B h v c" and skip: "same_dims skip B H W C"
    and h: "1 \<le> h" "2 * h \<le> H" and v: "1 \<le> v" "2 * v \<le> W"
  shows "\<exists>y. Decoder_call (Decoder_build n resize w1 w2) x skip = Inr y \<and> same_dims y B H W n"
proof -
  have d: "batch x = B" "height x = h" "width x = v"
    using x by (simp_all add: same_dims_def)
  have e: "batch skip = B" "height skip = H" "width skip = W"
    using skip by (simp_all add: same_dims_def)
  have "batch x = batch skip" "1 \<le> height x" "1 \<le> width x"
      "2 * height x \<le> height skip" "2 * width x \<le> width skip"
    using h v by (simp_all add: d e)
  from Decoder_call_dims [OF this, of "Decoder_build n resize w1 w2"] show ?thesis
    by (simp add: e same_dims_def)
qed

lemma halving:
  "n div 2 div 2 = n div 4" "n div 4 div 2 = n div 8" "n div 8 div 2 = n div 16"
  "n div 16 div 2 = n div 32" for n :: nat
  by (simp_all add: div_mult2_eq [symmetric])

lemma twice_half: "2 * (m div 2) \<le> m" for m :: nat
  by simp

lemma halving_bounds:
  fixes n :: nat
  assumes "32 \<le> n"
  shows "2 \<le> n" "2 \<le> n div 2" "2 \<le> n div 4" "2 \<le> n div 8" "2 \<le> n div 16" "1 \<le> n div 32"
    and "1 \<le> n div 16" "1 \<le> n div 8" "1 \<le> n div 4" "1 \<le> n div 2"
    and "2 * (n div 32) \<le> n div 16" "2 * (n div 16) \<le> n div 8" "2 * (n div 8) \<le> n div 4"
    and "2 * (n div 4) \<le> n div 2" "2 * (n div 2) \<le> n"
proof -
  show "2 \<le> n" "2 \<le> n div 2" "2 \<le> n div 4" "2 \<le> n div 8" "2 \<le> n div 16" "1 \<le> n div 32"
    "1 \<le> n div 16" "1 \<le> n div 8" "1 \<le> n div 4" "1 \<le> n div 2"
    using assms by (simp_all add: less_eq_div_iff_mult_less_eq)
  show "2 * (n div 32) \<le> n div 16"
    using twice_half [of "n div 16"] by (simp only: halving)
  show "2 * (n div 16) \<le> n div 8"
    using twice_half [of "n div 8"] by (simp only: halving)
  show "2 * (n div 8) \<le> n div 4"
    using twice_half [of "n div 4"] by (simp only: halving)
  show "2 * (n div 4) \<le> n div 2"
    using twice_half [of "n div 2"] by (simp only: halving)
  show "2 * (n div 2) \<le> n"
    by (rule twice_half)
qed

text \<open>
  C7. For every input \<^verbatim>\<open>x\<close> whose height \<open>H\<close> and width \<open>W\<close> are at least 32,
  \<^verbatim>\<open>UNet.call\<close> returns without raising. The stem keeps the shape and gives \<^verbatim>\<open>skip1\<close>
  with 32 channels. Each of the five encoders returns a tensor whose height and width are
  half those of its input, rounded down: \<^verbatim>\<open>skip2\<close> to \<^verbatim>\<open>skip5\<close> and \<^verbatim>\<open>x_enc\<close> have the
  heights \<open>H div 2\<close>, \<open>H div 4\<close>, \<open>H div 8\<close>, \<open>H div 16\<close> and \<open>H div 32\<close>, and the
  widths likewise. Each of the five decoders doubles its input and pads it to the skip tensor
  it is given, so that its result has the height and the width of that skip tensor: those of
  \<^verbatim>\<open>skip5\<close>, \<^verbatim>\<open>skip4\<close>, \<^verbatim>\<open>skip3\<close>, \<^verbatim>\<open>skip2\<close> and \<^verbatim>\<open>skip1\<close> in turn. The result of the
  call is the last convolution and LeakyReLU(0.1) of the output of the fifth decoder and has
  the batch size, the height and the width of the input and \<^verbatim>\<open>out_filters\<close> channels,
  whether or not \<open>H\<close> and \<open>W\<close> are multiples of 32.
\<close>

theorem UNet_call_restores_shape:
  assumes H: "32 \<le> height x" and W: "32 \<le> width x"
  shows "\<exists>skip1 skip2 skip3 skip4 skip5 x_enc d1 d2 d3 d4 d5 y.
      skip1 = LeakyReLU_call (1 / 10) (Conv2D_call \<lparr>filters = 32, kernel_size = 7, response = w 1\<rparr>
                (LeakyReLU_call (1 / 10)
                  (Conv2D_call \<lparr>filters = 32, kernel_size = 7, response = w 0\<rparr> x)))
    \<and> same_dims skip1 (batch x) (height x) (width x) 32
    \<and> Encoder_call (Encoder_build 64 5 (w 2) (w 3)) skip1 = Inr skip2
    \<and> same_dims skip2 (batch x) (height x div 2) (width x div 2) 64
    \<and> Encoder_call (Encoder_build 128 5 (w 4) (w 5)) skip2 = Inr skip3
    \<and> same_dims skip3 (batch x) (height x div 4) (width x div 4) 128
    \<and> Encoder_call (Encoder_build 256 3 (w 6) (w 7)) skip3 = Inr skip4
    \<and> same_dims skip4 (batch x) (height x div 8) (width x div 8) 256
    \<and> Encoder_call (Encoder_build 512 3 (w 8) (w 9)) skip4 = Inr skip5
    \<and> same_dims skip5 (batch x) (height x div 16) (width x div 16) 512
    \<and> Encoder_call (Encoder_build 512 3 (w 10) (w 11)) skip5 = Inr x_enc
    \<and> same_dims x_enc (batch x) (height x div 32) (width x div 32) 512
    \<and> Decoder_call (Decoder_build 512 resize (w 12) (w 13)) x_enc skip5 = Inr d1
    \<and> same_dims d1 (batch x) (height x div 16) (width x div 16) 512
    \<and> Decoder_call (Decoder_build 256 resize (w 14) (w 15)) d1 skip4 = Inr d2
    \<and> same_dims d2 (batch x) (height x div 8) (width x div 8) 256
    \<and> Decoder_call (Decoder_build 128 resize (w 16) (w 17)) d2 skip3 = Inr d3
    \<and> same_dims d3 (batch x) (height x div 4) (width x div 4) 128
    \<and> Decoder_call (Decoder_build 64 resize (w 18) (w 19)) d3 skip2 = Inr d4
    \<and> same_dims d4 (batch x) (height x div 2) (width x div 2) 64
    \<and> Decoder_call (Decoder_build 32 resize (w 20) (w 21)) d4 skip1 = Inr d5
    \<and> same_dims d5 (batch x) (height x) (width x) 32
    \<and> y = LeakyReLU_call (1 / 10)
            (Conv2D_call \<lparr>filters = out_filters, kernel_size = 3, response = w 22\<rparr> d5)
    \<and> UNet_call (UNet_build out_filters resize w) x = Inr y
    \<and> same_dims y (batch x) (height x) (width x) out_filters"
proof -
  note hb = halving_bounds [OF H] and wb = halving_bounds [OF W]
  define skip1 where "skip1 = LeakyReLU_call (1 / 10)
     (Conv2D_call \<lparr>filters = 32, kernel_size = 7, response = w 1\<rparr>
       (LeakyReLU_call (1 / 10) (Conv2D_call \<lparr>filters = 32, kernel_size = 7, response = w 0\<rparr> x)))"
  have s1: "same_dims skip1 (batch x) (height x) (width x) 32"
    by (simp add: skip1_def same_dims_def)
  from Encoder_call_build_dims [OF s1 hb(1) wb(1)] obtain skip2
    where e1: "Encoder_call (Encoder_build 64 5 (w 2) (w 3)) skip1 = Inr skip2"
      and s2: "same_dims skip2 (batch x) (height x div 2) (width x div 2) 64"
    by blast
  from Encoder_call_build_dims [OF s2 hb(2) wb(2)] obtain skip3
    where e2: "Encoder_call (Encoder_build 128 5 (w 4) (w 5)) skip2 = Inr skip3"
      and s3: "same_dims skip3 (batch x) (height x div 4) (width x div 4) 128"
    unfolding halving by blast
  from Encoder_call_build_dims [OF s3 hb(3) wb(3)] obtain skip4
    where e3: "Encoder_call (Encoder_build 256 3 (w 6) (w 7)) skip3 = Inr skip4"
      and s4: "same_dims skip4 (batch x) (height x div 8) (width x div 8) 256"
    unfolding halving by blast
  from Encoder_call_build_dims [OF s4 hb(4) wb(4)] obtain skip5
    where e4: "Encoder_call (Encoder_build 512 3 (w 8) (w 9)) skip4 = Inr skip5"
      and s5: "same_dims skip5 (batch x) (height x div 16) (width x div 16) 512"
    unfolding halving by blast
  from Encoder_call_build_dims [OF s5 hb(5) wb(5)] obtain x_enc
    where e5: "Encoder_call (Encoder_build 512 3 (w 10) (w 11)) skip5 = Inr x_enc"
      and s6: "same_dims x_enc (batch x) (height x div 32) (width x div 32) 512"
    unfolding halving by blast
  from Decoder_call_build_dims [OF s6 s5 hb(6) hb(11) wb(6) wb(11)] obtain d1
    where c1: "Decoder_call (Decoder_build 512 resize (w 12) (w 13)) x_enc skip5 = Inr d1"
      and t1: "same_dims d1 (batch x) (height x div 16) (width x div 16) 512"
    by blast
  from Decoder_call_build_dims [OF t1 s4 hb(7) hb(12) wb(7) wb(12)] obtain d2
    where c2: "Decoder_call (Decoder_build 256 resize (w 14) (w 15)) d1 skip4 = Inr d2"
      and t2: "same_dims d2 (batch x) (height x div 8) (width x div 8) 256"
    by blast
  from Decoder_call_build_dims [OF t2 s3 hb(8) hb(13) wb(8) wb(13)] obtain d3
    where c3: "Decoder_call (Decoder_build 128 resize (w 16) (w 17)) d2 skip3 = Inr d3"
      and t3: "same_dims d3 (batch x) (height x div 4) (width x div 4) 128"
    by blast
  from Decoder_call_build_dims [OF t3 s2 hb(9) hb(14) wb(9) wb(14)] obtain d4
    where c4: "Decoder_call (Decoder_build 64 resize (w 18) (w 19)) d3 skip2 = Inr d4"
      and t4: "same_dims d4 (batch x) (height x div 2) (width x div 2) 64"
    by blast
  from Decoder_call_build_dims [OF t4 s1 hb(10) hb(15) wb(10) wb(15)] obtain d5
    where c5: "Decoder_call (Decoder_build 32 resize (w 20) (w 21)) d4 skip1 = Inr d5"
      and t5: "same_dims d5 (batch x) (height x) (width x) 32"
    by blast
  define y where "y = LeakyReLU_call (1 / 10)
     (Conv2D_call \<lparr>filters = out_filters, kernel_size = 3, response = w 22\<rparr> d5)"
  have call: "UNet_call (UNet_build out_filters resize w) x = Inr y"
    unfolding UNet_call_def Let_def UNet_build_fields skip1_def [symmetric]
    by (simp add: e1 e2 e3 e4 e5 c1 c2 c3 c4 c5 y_def)
  have dy: "same_dims y (batch x) (height x) (width x) out_filters"
    using t5 by (simp add: y_def same_dims_def)
  note facts = skip1_def s1 e1 s2 e2 s3 e3 s4 e4 s5 e5 s6 c1 t1 c2 t2 c3 t3 c4 t4 c5 t5 y_def call dy
  show ?thesis
    apply (rule exI [of _ skip1], rule exI [of _ skip2], rule exI [of _ skip3])
    apply (rule exI [of _ skip4], rule exI [of _ skip5], rule exI [of _ x_enc])
    apply (rule exI [of _ d1], rule exI [of _ d2], rule exI [of _ d3])
    apply (rule exI [of _ d4], rule exI [of _ d5], rule exI [of _ y])
    apply (intro conjI)
    apply (fact facts)+
    done
qed

text \<open>
  An instance with a height and a width that are not multiples of 32: an input of shape
  \<^verbatim>\<open>[2, 33, 45, 3]\<close>. The encoders give the heights 16, 8, 4, 2, 1 and the widths
  22, 11, 5, 2, 1; the decoders give them back in the reverse order.
\<close>

theorem UNet_call_restores_shape_witness:
  "32 \<le> height (full 2 33 45 3 0) \<and> 32 \<le> width (full 2 33 45 3 0)
   \<and> (\<exists>skip1 skip2 skip3 skip4 skip5 x_enc d1 d2 d3 d4 d5 y.
      skip1 = LeakyReLU_call (1 / 10) (Conv2D_call \<lparr>filters = 32, kernel_size = 7, response = zero_weights 1\<rparr>
                (LeakyReLU_call (1 / 10)
                  (Conv2D_call \<lparr>filters = 32, kernel_size = 7, response = zero_weights 0\<rparr> (full 2 33 45 3 0))))
    \<and> same_dims skip1 2 33 45 32
    \<and> Encoder_call (Encoder_build 64 5 (zero_weights 2) (zero_weights 3)) skip1 = Inr skip2
    \<and> same_dims skip2 2 16 22 64
    \<and> Encoder_call (Encoder_build 128 5 (zero_weights 4) (zero_weights 5)) skip2 = Inr skip3
    \<and> same_dims skip3 2 8 11 128
    \<and> Encoder_call (Encoder_build 256 3 (zero_weights 6) (zero_weights 7)) skip3 = Inr skip4
    \<and> same_dims skip4 2 4 5 256
    \<and> Encoder_call (Encoder_build 512 3 (zero_weights 8) (zero_weights 9)) skip4 = Inr skip5
    \<and> same_dims skip5 2 2 2 512
    \<and> Encoder_call (Encoder_build 512 3 (zero_weights 10) (zero_weights 11)) skip5 = Inr x_enc
    \<and> same_dims x_enc 2 1 1 512
    \<and> Decoder_call (Decoder_build 512 (const_response 0) (zero_weights 12) (zero_weights 13)) x_enc skip5 = Inr d1
    \<and> same_dims d1 2 2 2 512
    \<and> Decoder_call (Decoder_build 256 (const_response 0) (zero_weights 14) (zero_weights 15)) d1 skip4 = Inr d2
    \<and> same_dims d2 2 4 5 256
    \<and> Decoder_call (Decoder_build 128 (const_response 0) (zero_weights 16) (zero_weights 17)) d2 skip3 = Inr d3
    \<and> same_dims d3 2 8 11 128
    \<and> Decoder_call (Decoder_build 64 (const_response 0) (zero_weights 18) (zero_weights 19)) d3 skip2 = Inr d4
    \<and> same_dims d4 2 16 22 64
    \<and> Decoder_call (Decoder_build 32 (const_response 0) (zero_weights 20) (zero_weights 21)) d4 skip1 = Inr d5
    \<and> same_dims d5 2 33 45 32
    \<and> y = LeakyReLU_call (1 / 10)
            (Conv2D_call \<lparr>filters = 5, kernel_size = 3, response = zero_weights 22\<rparr> d5)
    \<and> UNet_call (UNet_build 5 (const_response 0) zero_weights) (full 2 33 45 3 0) = Inr y
    \<and> same_dims y 2 33 45 5)"
proof -
  have H: "32 \<le> height (full 2 33 45 3 0)" and W: "32 \<le> width (full 2 33 45 3 0)"
    by simp_all
  have d: "batch (full 2 33 45 3 0) = 2" "height (full 2 33 45 3 0) = 33"
      "width (full 2 33 45 3 0) = 45"
      "(33::nat) div 2 = 16" "(33::nat) div 4 = 8" "(33::nat) div 8 = 4" "(33::nat) div 16 = 2"
      "(33::nat) div 32 = 1" "(45::nat) div 2 = 22" "(45::nat) div 4 = 11" "(45::nat) div 8 = 5"
      "(45::nat) div 16 = 2" "(45::nat) div 32 = 1"
    by simp_all
  note inst = UNet_call_restores_shape [OF H W, of zero_weights "const_response 0" 5,
      unfolded d]
  from H W inst show ?thesis
    by (intro conjI)
qed


section \<open>OpticalFlow: the refined flows and the visibility maps\<close>

lemma OpticalFlow_build_fields [simp]:
  "flow_interp_layer (OpticalFlow_build dense_image_warp resize w) = UNet_build 5 resize w"
  "backwarp_layer_t0 (OpticalFlow_build dense_image_warp resize w) = BackWarp_build dense_image_warp"
  "backwarp_layer_t1 (OpticalFlow_build dense_image_warp resize w) = BackWarp_build dense_image_warp"
  by (simp_all add: OpticalFlow_build_def)

text \<open>
  \<^verbatim>\<open>OpticalFlow.call\<close> on well-shaped operands returns; the intermediate tensors are named
  as in the source.
\<close>

lemma OpticalFlow_call_returns:
  assumes fr0: "same_dims frames_0 B H W C0" and fr1: "same_dims frames_1 B H W C1"
    and f01: "same_dims f_01 B H W 2" and f10: "same_dims f_10 B H W 2"
    and t: "fits t_indeces B 1 1 1"
    and H32: "32 \<le> H" and W32: "32 \<le> W"
    and warp0: "\<forall>flow. same_dims flow B H W 2 \<longrightarrow>
        (\<exists>g. dense_image_warp frames_0 flow = Inr g \<and> batch g = B \<and> height g = H \<and> width g = W)"
    and warp1: "\<forall>flow. same_dims flow B H W 2 \<longrightarrow>
        (\<exists>g. dense_image_warp frames_1 flow = Inr g \<and> batch g = B \<and> height g = H \<and> width g = W)"
  shows "\<exists>f_t0_t f_t1_t g_i0_ft0 g_i1_ft1 flow_interp_in flow_interp_out f_t0 f_t1.
      OpticalFlow_flows f_01 f_10 t_indeces = Inr (f_t0_t, f_t1_t)
    \<and> same_dims f_t0_t B H W 2 \<and> same_dims f_t1_t B H W 2
    \<and> dense_image_warp frames_0 f_t0_t = Inr g_i0_ft0
    \<and> dense_image_warp frames_1 f_t1_t = Inr g_i1_ft1
    \<and> concat_axis3 [frames_0, frames_1, f_01, f_10, f_t1_t, f_t0_t, g_i1_ft1, g_i0_ft0]
         = Inr flow_interp_in
    \<and> UNet_call (UNet_build 5 resize w) flow_interp_in = Inr flow_interp_out
    \<and> same_dims flow_interp_out B H W 5
    \<and> tf_add f_t0_t (slice_channels 0 2 flow_interp_out) = Inr f_t0
    \<and> tf_add f_t1_t (slice_channels 2 4 flow_interp_out) = Inr f_t1
    \<and> OpticalFlow_call (OpticalFlow_build dense_image_warp resize w)
         (frames_0, frames_1, f_01, f_10, t_indeces)
         = Inr (f_t0, tensor_map sigmoid (slice_channels 4 5 flow_interp_out), f_t1,
                scalar_minus 1 (tensor_map sigmoid (slice_channels 4 5 flow_interp_out)),
                g_i0_ft0, g_i1_ft1)"
proof -
  from OpticalFlow_flows_value [OF fits_time_index [OF t] f01 f10]
  obtain f_t0_t f_t1_t where flows: "OpticalFlow_flows f_01 f_10 t_indeces = Inr (f_t0_t, f_t1_t)"
    and d0: "same_dims f_t0_t B H W 2" and d1: "same_dims f_t1_t B H W 2"
    by blast
  from warp0 [rule_format, OF d0] obtain g_i0_ft0
    where g0: "dense_image_warp frames_0 f_t0_t = Inr g_i0_ft0"
      and dg0: "batch g_i0_ft0 = B" "height g_i0_ft0 = H" "width g_i0_ft0 = W"
    by blast
  from warp1 [rule_format, OF d1] obtain g_i1_ft1
    where g1: "dense_image_warp frames_1 f_t1_t = Inr g_i1_ft1"
      and dg1: "batch g_i1_ft1 = B" "height g_i1_ft1 = H" "width g_i1_ft1 = W"
    by blast
  let ?xs = "[frames_0, frames_1, f_01, f_10, f_t1_t, f_t0_t, g_i1_ft1, g_i0_ft0]"
  have "\<forall>x \<in> set ?xs. batch x = B \<and> height x = H \<and> width x = W"
    using fr0 fr1 f01 f10 d0 d1 dg0 dg1 by (simp add: same_dims_def)
  moreover have "?xs \<noteq> []"
    by simp
  ultimately obtain flow_interp_in where cat: "concat_axis3 ?xs = Inr flow_interp_in"
    and dc: "batch flow_interp_in = B" "height flow_interp_in = H" "width flow_interp_in = W"
    using concat_axis3_dims [of ?xs B H W] by blast
  have "32 \<le> height flow_interp_in" "32 \<le> width flow_interp_in"
    using H32 W32 dc by simp_all
  from UNet_call_dims_general [OF this, of "UNet_build 5 resize w"]
  obtain flow_interp_out
    where u: "UNet_call (UNet_build 5 resize w) flow_interp_in = Inr flow_interp_out"
      and du: "same_dims flow_interp_out B H W 5"
    using dc by (auto simp: same_dims_def)
  have dd0: "same_dims (slice_channels 0 2 flow_interp_out) B H W 2"
    and dd1: "same_dims (slice_channels 2 4 flow_interp_out) B H W 2"
    using du by (simp_all add: same_dims_def)
  from broadcast_op_full_right [OF same_dims_fits [OF d0] dd0]
  obtain f_t0 where a0: "tf_add f_t0_t (slice_channels 0 2 flow_interp_out) = Inr f_t0"
    unfolding tf_add_def by blast
  from broadcast_op_full_right [OF same_dims_fits [OF d1] dd1]
  obtain f_t1 where a1: "tf_add f_t1_t (slice_channels 2 4 flow_interp_out) = Inr f_t1"
    unfolding tf_add_def by blast
  have call: "OpticalFlow_call (OpticalFlow_build dense_image_warp resize w)
         (frames_0, frames_1, f_01, f_10, t_indeces)
         = Inr (f_t0, tensor_map sigmoid (slice_channels 4 5 flow_interp_out), f_t1,
                scalar_minus 1 (tensor_map sigmoid (slice_channels 4 5 flow_interp_out)),
                g_i0_ft0, g_i1_ft1)"
    unfolding OpticalFlow_call_def
    by (simp only: prod.case flows bindR_Inr OpticalFlow_build_fields BackWarp_call_build g0 g1
        cat u Let_def a0 a1)
  from flows d0 d1 g0 g1 cat u du a0 a1 call show ?thesis
    by blast
qed

lemma tf_add_same_dims:
  assumes x: "same_dims x B H W C" and y: "same_dims y B H W C" and r: "tf_add x y = Inr r"
  shows "same_dims r B H W C"
    and "inside r b i j c \<Longrightarrow> elem r b i j c = elem x b i j c + elem y b i j c"
proof -
  from broadcast_op_full_right [OF same_dims_fits [OF x] y, of "\<lambda>u v. u + v"] r
  show d: "same_dims r B H W C"
    unfolding tf_add_def by auto
  assume ins: "inside r b i j c"
  then have "inside x b i j c" "inside y b i j c"
    using d x y by (simp_all add: same_dims_inside)
  then show "elem r b i j c = elem x b i j c + elem y b i j c"
    using broadcast_op_Inr(1) [OF r [unfolded tf_add_def], of b i j c]
    by (simp add: bread_inside)
qed

text \<open>
  C6. For frames and flows of one batch size, height and width, both at least 32, flows of
  two channels, a time index that broadcasts over them and a warp that returns an image of
  the shape of the frame, \<^verbatim>\<open>OpticalFlow.call\<close> returns without raising. The tensor given
  to the UNet of five output channels is the concatenation along the channels of
  \<^verbatim>\<open>[frames_0, frames_1, f_01, f_10, f_t1_t, f_t0_t, g_i1_ft1, g_i0_ft0]\<close>; the returned
  flows are \<^verbatim>\<open>f_t0_t\<close> plus channels 0 and 1 of the output of the UNet and \<^verbatim>\<open>f_t1_t\<close>
  plus its channels 2 and 3; \<^verbatim>\<open>v_t0\<close> is the sigmoid of channel 4 and \<^verbatim>\<open>v_t1\<close> is
  \<^verbatim>\<open>1 - v_t0\<close>; the last two results are the two warped frames.
\<close>

theorem OpticalFlow_call_outputs:
  assumes fr0: "same_dims frames_0 B H W C0" and fr1: "same_dims frames_1 B H W C1"
    and f01: "same_dims f_01 B H W 2" and f10: "same_dims f_10 B H W 2"
    and t: "fits t_indeces B 1 1 1"
    and H32: "32 \<le> H" and W32: "32 \<le> W"
    and warp0: "\<forall>flow. same_dims flow B H W 2 \<longrightarrow>
        (\<exists>g. dense_image_warp frames_0 flow = Inr g \<and> batch g = B \<and> height g = H \<and> width g = W)"
    and warp1: "\<forall>flow. same_dims flow B H W 2 \<longrightarrow>
        (\<exists>g. dense_image_warp frames_1 flow = Inr g \<and> batch g = B \<and> height g = H \<and> width g = W)"
  shows "\<exists>f_t0_t f_t1_t g_i0_ft0 g_i1_ft1 flow_interp_in flow_interp_out f_t0 v_t0 f_t1 v_t1.
      OpticalFlow_flows f_01 f_10 t_indeces = Inr (f_t0_t, f_t1_t)
    \<and> dense_image_warp frames_0 f_t0_t = Inr g_i0_ft0
    \<and> dense_image_warp frames_1 f_t1_t = Inr g_i1_ft1
    \<and> concat_axis3 [frames_0, frames_1, f_01, f_10, f_t1_t, f_t0_t, g_i1_ft1, g_i0_ft0]
         = Inr flow_interp_in
    \<and> UNet_call (UNet_build 5 resize w) flow_interp_in = Inr flow_interp_out
    \<and> same_dims flow_interp_out B H W 5
    \<and> OpticalFlow_call (OpticalFlow_build dense_image_warp resize w)
         (frames_0, frames_1, f_01, f_10, t_indeces)
         = Inr (f_t0, v_t0, f_t1, v_t1, g_i0_ft0, g_i1_ft1)
    \<and> same_dims f_t0 B H W 2 \<and> same_dims f_t1 B H W 2
    \<and> same_dims v_t0 B H W 1 \<and> same_dims v_t1 B H W 1
    \<and> (\<forall>b i j c. inside f_t0 b i j c \<longrightarrow>
          elem f_t0 b i j c = elem f_t0_t b i j c + elem flow_interp_out b i j c)
    \<and> (\<forall>b i j c. inside f_t1 b i j c \<longrightarrow>
          elem f_t1 b i j c = elem f_t1_t b i j c + elem flow_interp_out b i j (2 + c))
    \<and> (\<forall>b i j. elem v_t0 b i j 0 = sigmoid (elem flow_interp_out b i j 4))
    \<and> (\<forall>b i j c. elem v_t1 b i j c = 1 - elem v_t0 b i j c)"
proof -
  from OpticalFlow_call_returns [where dense_image_warp = dense_image_warp and resize = resize and w = w,
      OF fr0 fr1 f01 f10 t H32 W32 warp0 warp1]
  obtain f_t0_t f_t1_t g_i0_ft0 g_i1_ft1 flow_interp_in flow_interp_out f_t0 f_t1
    where flows: "OpticalFlow_flows f_01 f_10 t_indeces = Inr (f_t0_t, f_t1_t)"
      and d0: "same_dims f_t0_t B H W 2" and d1: "same_dims f_t1_t B H W 2"
      and g0: "dense_image_warp frames_0 f_t0_t = Inr g_i0_ft0"
      and g1: "dense_image_warp frames_1 f_t1_t = Inr g_i1_ft1"
      and cat: "concat_axis3 [frames_0, frames_1, f_01, f_10, f_t1_t, f_t0_t, g_i1_ft1, g_i0_ft0]
         = Inr flow_interp_in"
      and u: "UNet_call (UNet_build 5 resize w) flow_interp_in = Inr flow_interp_out"
      and du: "same_dims flow_interp_out B H W 5"
      and a0: "tf_add f_t0_t (slice_channels 0 2 flow_interp_out) = Inr f_t0"
      and a1: "tf_add f_t1_t (slice_channels 2 4 flow_interp_out) = Inr f_t1"
      and call: "OpticalFlow_call (OpticalFlow_build dense_image_warp resize w)
         (frames_0, frames_1, f_01, f_10, t_indeces)
         = Inr (f_t0, tensor_map sigmoid (slice_channels 4 5 flow_interp_out), f_t1,
                scalar_minus 1 (tensor_map sigmoid (slice_channels 4 5 flow_interp_out)),
                g_i0_ft0, g_i1_ft1)"
    by (elim exE conjE) (rule that)
  define v_t0 where "v_t0 = tensor_map sigmoid (slice_channels 4 5 flow_interp_out)"
  define v_t1 where "v_t1 = scalar_minus 1 v_t0"
  have dd0: "same_dims (slice_channels 0 2 flow_interp_out) B H W 2"
    and dd1: "same_dims (slice_channels 2 4 flow_interp_out) B H W 2"
    and dv0: "same_dims v_t0 B H W 1" and dv1: "same_dims v_t1 B H W 1"
    using du by (simp_all add: same_dims_def v_t0_def v_t1_def)
  note F0 = tf_add_same_dims [OF d0 dd0 a0]
  note F1 = tf_add_same_dims [OF d1 dd1 a1]
  have r0: "elem f_t0 b i j c = elem f_t0_t b i j c + elem flow_interp_out b i j c"
    if "inside f_t0 b i j c" for b i j c
    using F0(2) [OF that] by simp
  have r1: "elem f_t1 b i j c = elem f_t1_t b i j c + elem flow_interp_out b i j (2 + c)"
    if "inside f_t1 b i j c" for b i j c
    using F1(2) [OF that] by simp
  have r2: "elem v_t0 b i j 0 = sigmoid (elem flow_interp_out b i j 4)" for b i j
    by (simp add: v_t0_def)
  have r3: "elem v_t1 b i j c = 1 - elem v_t0 b i j c" for b i j c
    by (simp add: v_t1_def)
  have call': "OpticalFlow_call (OpticalFlow_build dense_image_warp resize w)
         (frames_0, frames_1, f_01, f_10, t_indeces)
         = Inr (f_t0, v_t0, f_t1, v_t1, g_i0_ft0, g_i1_ft1)"
    using call by (simp only: v_t0_def v_t1_def)
  from flows g0 g1 cat u du call' F0(1) F1(1) dv0 dv1 r0 r1 r2 r3 show ?thesis
    by blast
qed

text \<open>
  An instance: frames of shape \<^verbatim>\<open>[1, 32, 32, 3]\<close>, \<^verbatim>\<open>f_01 = 4\<close> and \<^verbatim>\<open>f_10 = 0\<close>
  everywhere, time index \<open>1/2\<close>, a warp that keeps the frame and a UNet whose convolutions
  answer zero: the flows come back as \<open>-1\<close> and \<open>1\<close>, both visibility maps are \<open>1/2\<close>.
\<close>

theorem OpticalFlow_call_outputs_witness:
  "same_dims (full 1 32 32 3 5) 1 32 32 3 \<and> same_dims (full 1 32 32 3 6) 1 32 32 3
   \<and> same_dims (full 1 32 32 2 4) 1 32 32 2 \<and> same_dims (full 1 32 32 2 0) 1 32 32 2
   \<and> fits (full 1 1 1 1 (1 / 2)) 1 1 1 1
   \<and> (\<exists>f_t0 v_t0 f_t1 v_t1.
        OpticalFlow_call (OpticalFlow_build keep_image (const_response 0) zero_weights)
          (full 1 32 32 3 5, full 1 32 32 3 6, full 1 32 32 2 4, full 1 32 32 2 0,
           full 1 1 1 1 (1 / 2))
          = Inr (f_t0, v_t0, f_t1, v_t1, full 1 32 32 3 5, full 1 32 32 3 6)
      \<and> elem f_t0 0 0 0 0 = - 1 \<and> elem f_t1 0 0 0 0 = 1
      \<and> elem v_t0 0 0 0 0 = 1 / 2 \<and> elem v_t1 0 0 0 0 = 1 / 2)"
proof -
  let ?fr0 = "full 1 32 32 3 5" and ?fr1 = "full 1 32 32 3 6"
  let ?f01 = "full 1 32 32 2 4" and ?f10 = "full 1 32 32 2 0"
  let ?t = "full 1 1 1 1 (1 / 2)"
  have fr0: "same_dims ?fr0 1 32 32 3" and fr1: "same_dims ?fr1 1 32 32 3"
    and f01: "same_dims ?f01 1 32 32 2" and f10: "same_dims ?f10 1 32 32 2"
    by (simp_all add: same_dims_def)
  have t: "fits ?t 1 1 1 1"
    by (simp add: fits_def)
  have warp0: "\<forall>flow. same_dims flow 1 32 32 2 \<longrightarrow>
        (\<exists>g. keep_image ?fr0 flow = Inr g \<and> batch g = 1 \<and> height g = 32 \<and> width g = 32)"
    and warp1: "\<forall>flow. same_dims flow 1 32 32 2 \<longrightarrow>
        (\<exists>g. keep_image ?fr1 flow = Inr g \<and> batch g = 1 \<and> height g = 32 \<and> width g = 32)"
    by (simp_all add: keep_image_def)
  have H32: "(32::nat) \<le> 32"
    by simp
  from OpticalFlow_call_outputs [where dense_image_warp = keep_image and resize = "const_response 0"
      and w = zero_weights, OF fr0 fr1 f01 f10 t H32 H32 warp0 warp1]
  obtain f_t0_t f_t1_t g_i0_ft0 g_i1_ft1 flow_interp_in flow_interp_out f_t0 v_t0 f_t1 v_t1
    where flows: "OpticalFlow_flows ?f01 ?f10 ?t = Inr (f_t0_t, f_t1_t)"
      and g0: "keep_image ?fr0 f_t0_t = Inr g_i0_ft0" and g1: "keep_image ?fr1 f_t1_t = Inr g_i1_ft1"
      and u: "UNet_call (UNet_build 5 (const_response 0) zero_weights) flow_interp_in = Inr flow_interp_out"
      and call: "OpticalFlow_call (OpticalFlow_build keep_image (const_response 0) zero_weights)
          (?fr0, ?fr1, ?f01, ?f10, ?t) = Inr (f_t0, v_t0, f_t1, v_t1, g_i0_ft0, g_i1_ft1)"
      and df0: "same_dims f_t0 1 32 32 2" and df1: "same_dims f_t1 1 32 32 2"
      and e0: "\<forall>b i j c. inside f_t0 b i j c \<longrightarrow>
          elem f_t0 b i j c = elem f_t0_t b i j c + elem flow_interp_out b i j c"
      and e1: "\<forall>b i j c. inside f_t1 b i j c \<longrightarrow>
          elem f_t1 b i j c = elem f_t1_t b i j c + elem flow_interp_out b i j (2 + c)"
      and ev0: "\<forall>b i j. elem v_t0 b i j 0 = sigmoid (elem flow_interp_out b i j 4)"
      and ev1: "\<forall>b i j c. elem v_t1 b i j c = 1 - elem v_t0 b i j c"
    by (elim exE conjE) (rule that)
  have out: "elem flow_interp_out b i j c = 0" for b i j c
    using UNet_call_last_stage [OF u] by (auto simp: zero_weights_def const_response_def)
  from OpticalFlow_flows_value [OF fits_time_index [OF t] f01 f10] flows
  have v: "elem f_t0_t 0 0 0 0 = - 1" "elem f_t1_t 0 0 0 0 = 1"
    by auto
  have ins: "inside f_t0 0 0 0 0" "inside f_t1 0 0 0 0"
    using df0 df1 by (simp_all add: same_dims_inside)
  have "elem f_t0 0 0 0 0 = - 1" "elem f_t1 0 0 0 0 = 1"
    "elem v_t0 0 0 0 0 = 1 / 2" "elem v_t1 0 0 0 0 = 1 / 2"
    using e0 e1 ev0 ev1 ins by (simp_all add: out v sigmoid_zero)
  moreover have "g_i0_ft0 = ?fr0" "g_i1_ft1 = ?fr1"
    using g0 g1 by (simp_all add: keep_image_def)
  ultimately show ?thesis
    using fr0 fr1 f01 f10 t call by blast
qed

text \<open>
  C9, as stated, fails: the bounds on \<^verbatim>\<open>v_t0\<close> are not strict. With a UNet whose last
  convolution answers 100 everywhere, channel 4 of its output is 100 after the activation;
  the logistic function of 100 differs from 1 by less than \<open>2 ^ -25\<close>, and the nearest
  \<^verbatim>\<open>float32\<close> is 1. The element of \<^verbatim>\<open>v_t0\<close> at index \<open>(0, 0, 0, 0)\<close> is 1 and that of
  \<^verbatim>\<open>v_t1\<close> is 0.
\<close>

theorem OpticalFlow_visibility_reaches_one:
  "\<exists>f_t0 v_t0 f_t1 v_t1 g_i0_ft0 g_i1_ft1.
      OpticalFlow_call (OpticalFlow_build keep_image (const_response 0) (const_weights 100))
        (full 1 32 32 3 5, full 1 32 32 3 6, full 1 32 32 2 4, full 1 32 32 2 0,
         full 1 1 1 1 (1 / 2))
        = Inr (f_t0, v_t0, f_t1, v_t1, g_i0_ft0, g_i1_ft1)
    \<and> inside v_t0 0 0 0 0 \<and> elem v_t0 0 0 0 0 = 1 \<and> elem v_t1 0 0 0 0 = 0"
proof -
  let ?fr0 = "full 1 32 32 3 5" and ?fr1 = "full 1 32 32 3 6"
  let ?f01 = "full 1 32 32 2 4" and ?f10 = "full 1 32 32 2 0"
  let ?t = "full 1 1 1 1 (1 / 2)"
  have fr0: "same_dims ?fr0 1 32 32 3" and fr1: "same_dims ?fr1 1 32 32 3"
    and f01: "same_dims ?f01 1 32 32 2" and f10: "same_dims ?f10 1 32 32 2"
    by (simp_all add: same_dims_def)
  have t: "fits ?t 1 1 1 1"
    by (simp add: fits_def)
  have warp0: "\<forall>flow. same_dims flow 1 32 32 2 \<longrightarrow>
        (\<exists>g. keep_image ?fr0 flow = Inr g \<and> batch g = 1 \<and> height g = 32 \<and> width g = 32)"
    and warp1: "\<forall>flow. same_dims flow 1 32 32 2 \<longrightarrow>
        (\<exists>g. keep_image ?fr1 flow = Inr g \<and> batch g = 1 \<and> height g = 32 \<and> width g = 32)"
    by (simp_all add: keep_image_def)
  have H32: "(32::nat) \<le> 32"
    by simp
  from OpticalFlow_call_returns [where dense_image_warp = keep_image and resize = "const_response 0"
      and w = "const_weights 100", OF fr0 fr1 f01 f10 t H32 H32 warp0 warp1]
  obtain flow_interp_in flow_interp_out f_t0 f_t1 g_i0_ft0 g_i1_ft1
    where u: "UNet_call (UNet_build 5 (const_response 0) (const_weights 100)) flow_interp_in
                = Inr flow_interp_out"
      and du: "same_dims flow_interp_out 1 32 32 5"
      and call: "OpticalFlow_call (OpticalFlow_build keep_image (const_response 0) (const_weights 100))
          (?fr0, ?fr1, ?f01, ?f10, ?t)
         = Inr (f_t0, tensor_map sigmoid (slice_channels 4 5 flow_interp_out), f_t1,
                scalar_minus 1 (tensor_map sigmoid (slice_channels 4 5 flow_interp_out)),
                g_i0_ft0, g_i1_ft1)"
    by (elim exE conjE) (rule that)
  define v_t0 where "v_t0 = tensor_map sigmoid (slice_channels 4 5 flow_interp_out)"
  define v_t1 where "v_t1 = scalar_minus 1 v_t0"
  have out: "elem flow_interp_out b i j c = 100" for b i j c
    using UNet_call_last_stage [OF u] by (auto simp: const_weights_def const_response_def)
  have ins: "inside v_t0 0 0 0 0"
    using du by (simp add: v_t0_def inside_def same_dims_def)
  have one: "elem v_t0 0 0 0 0 = 1"
    by (simp add: v_t0_def out sigmoid_saturates)
  have zero: "elem v_t1 0 0 0 0 = 0"
    by (simp add: v_t1_def one)
  have "OpticalFlow_call (OpticalFlow_build keep_image (const_response 0) (const_weights 100))
          (?fr0, ?fr1, ?f01, ?f10, ?t) = Inr (f_t0, v_t0, f_t1, v_t1, g_i0_ft0, g_i1_ft1)"
    using call by (simp only: v_t0_def v_t1_def)
  with ins one zero show ?thesis
    by blast
qed

text \<open>
  C9, amended. For frames and flows of one batch size, height and width, both at least 32,
  flows of two channels, a time index that broadcasts over them and a warp that returns an
  image of the shape of the frame, the visibility maps returned by \<^verbatim>\<open>OpticalFlow.call\<close>
  have one channel and are complementary: every element of \<^verbatim>\<open>v_t0\<close> and of \<^verbatim>\<open>v_t1\<close> lies
  between 0 and 1, both bounds included, and \<^verbatim>\<open>v_t0 + v_t1 = 1\<close> holds elementwise.
\<close>

theorem OpticalFlow_visibility_weights:
  assumes fr0: "same_dims frames_0 B H W C0" and fr1: "same_dims frames_1 B H W C1"
    and f01: "same_dims f_01 B H W 2" and f10: "same_dims f_10 B H W 2"
    and t: "fits t_indeces B 1 1 1"
    and H32: "32 \<le> H" and W32: "32 \<le> W"
    and warp0: "\<forall>flow. same_dims flow B H W 2 \<longrightarrow>
        (\<exists>g. dense_image_warp frames_0 flow = Inr g \<and> batch g = B \<and> height g = H \<and> width g = W)"
    and warp1: "\<forall>flow. same_dims flow B H W 2 \<longrightarrow>
        (\<exists>g. dense_image_warp frames_1 flow = Inr g \<and> batch g = B \<and> height g = H \<and> width g = W)"
  shows "\<exists>f_t0 v_t0 f_t1 v_t1 g_i0_ft0 g_i1_ft1.
      OpticalFlow_call (OpticalFlow_build dense_image_warp resize w)
         (frames_0, frames_1, f_01, f_10, t_indeces)
         = Inr (f_t0, v_t0, f_t1, v_t1, g_i0_ft0, g_i1_ft1)
    \<and> same_dims v_t0 B H W 1 \<and> same_dims v_t1 B H W 1
    \<and> (\<forall>b i j c. inside v_t0 b i j c \<longrightarrow>
          0 \<le> elem v_t0 b i j c \<and> elem v_t0 b i j c \<le> 1
          \<and> 0 \<le> elem v_t1 b i j c \<and> elem v_t1 b i j c \<le> 1
          \<and> elem v_t0 b i j c + elem v_t1 b i j c = 1)"
proof -
  from OpticalFlow_call_returns [where dense_image_warp = dense_image_warp and resize = resize and w = w,
      OF fr0 fr1 f01 f10 t H32 W32 warp0 warp1]
  obtain flow_interp_in flow_interp_out f_t0 f_t1 g_i0_ft0 g_i1_ft1
    where u: "UNet_call (UNet_build 5 resize w) flow_interp_in = Inr flow_interp_out"
      and du: "same_dims flow_interp_out B H W 5"
      and call: "OpticalFlow_call (OpticalFlow_build dense_image_warp resize w)
         (frames_0, frames_1, f_01, f_10, t_indeces)
         = Inr (f_t0, tensor_map sigmoid (slice_channels 4 5 flow_interp_out), f_t1,
                scalar_minus 1 (tensor_map sigmoid (slice_channels 4 5 flow_interp_out)),
                g_i0_ft0, g_i1_ft1)"
    by (elim exE conjE) (rule that)
  define v_t0 where "v_t0 = tensor_map sigmoid (slice_channels 4 5 flow_interp_out)"
  define v_t1 where "v_t1 = scalar_minus 1 v_t0"
  have dv0: "same_dims v_t0 B H W 1" and dv1: "same_dims v_t1 B H W 1"
    using du by (simp_all add: same_dims_def v_t0_def v_t1_def)
  have "0 \<le> elem v_t0 b i j c \<and> elem v_t0 b i j c \<le> 1
      \<and> 0 \<le> elem v_t1 b i j c \<and> elem v_t1 b i j c \<le> 1
      \<and> elem v_t0 b i j c + elem v_t1 b i j c = 1"
    for b i j c
    using sigmoid_range [of "elem flow_interp_out b i j (4 + c)"]
    by (simp add: v_t0_def v_t1_def)
  moreover have "OpticalFlow_call (OpticalFlow_build dense_image_warp resize w)
         (frames_0, frames_1, f_01, f_10, t_indeces)
         = Inr (f_t0, v_t0, f_t1, v_t1, g_i0_ft0, g_i1_ft1)"
    using call by (simp only: v_t0_def v_t1_def)
  ultimately show ?thesis
    using dv0 dv1 by blast
qed

text \<open>
  An instance: frames of shape \<^verbatim>\<open>[2, 32, 40, 3]\<close>, a warp that keeps the frame and a UNet
  whose convolutions answer zero. The call returns, both visibility maps have the shape
  \<^verbatim>\<open>[2, 32, 40, 1]\<close>, and their last elements, at index \<open>(1, 31, 39, 0)\<close>, lie between
  0 and 1 and add up to 1.
\<close>

theorem OpticalFlow_visibility_weights_witness:
  "same_dims (full 2 32 40 3 5) 2 32 40 3 \<and> same_dims (full 2 32 40 3 6) 2 32 40 3
   \<and> same_dims (full 2 32 40 2 4) 2 32 40 2 \<and> same_dims (full 2 32 40 2 0) 2 32 40 2
   \<and> fits (full 2 1 1 1 (1 / 2)) 2 1 1 1 \<and> (32::nat) \<le> 32 \<and> (32::nat) \<le> 40
   \<and> (\<exists>f_t0 v_t0 f_t1 v_t1 g_i0_ft0 g_i1_ft1.
        OpticalFlow_call (OpticalFlow_build keep_image (const_response 0) zero_weights)
          (full 2 32 40 3 5, full 2 32 40 3 6, full 2 32 40 2 4, full 2 32 40 2 0,
           full 2 1 1 1 (1 / 2))
          = Inr (f_t0, v_t0, f_t1, v_t1, g_i0_ft0, g_i1_ft1)
      \<and> same_dims v_t0 2 32 40 1 \<and> same_dims v_t1 2 32 40 1
      \<and> 0 \<le> elem v_t0 1 31 39 0 \<and> elem v_t0 1 31 39 0 \<le> 1
      \<and> 0 \<le> elem v_t1 1 31 39 0 \<and> elem v_t1 1 31 39 0 \<le> 1
      \<and> elem v_t0 1 31 39 0 + elem v_t1 1 31 39 0 = 1)"
proof -
  let ?fr0 = "full 2 32 40 3 5" and ?fr1 = "full 2 32 40 3 6"
  let ?f01 = "full 2 32 40 2 4" and ?f10 = "full 2 32 40 2 0"
  let ?t = "full 2 1 1 1 (1 / 2)"
  have fr0: "same_dims ?fr0 2 32 40 3" and fr1: "same_dims ?fr1 2 32 40 3"
    and f01: "same_dims ?f01 2 32 40 2" and f10: "same_dims ?f10 2 32 40 2"
    by (simp_all add: same_dims_def)
  have t: "fits ?t 2 1 1 1"
    by (simp add: fits_def)
  have warp0: "\<forall>flow. same_dims flow 2 32 40 2 \<longrightarrow>
        (\<exists>g. keep_image ?fr0 flow = Inr g \<and> batch g = 2 \<and> height g = 32 \<and> width g = 40)"
    and warp1: "\<forall>flow. same_dims flow 2 32 40 2 \<longrightarrow>
        (\<exists>g. keep_image ?fr1 flow = Inr g \<and> batch g = 2 \<and> height g = 32 \<and> width g = 40)"
    by (simp_all add: keep_image_def)
  have H32: "(32::nat) \<le> 32" and W32: "(32::nat) \<le> 40"
    by simp_all
  from OpticalFlow_visibility_weights [where dense_image_warp = keep_image
      and resize = "const_response 0" and w = zero_weights, OF fr0 fr1 f01 f10 t H32 W32 warp0 warp1]
  obtain f_t0 v_t0 f_t1 v_t1 g_i0_ft0 g_i1_ft1
    where call: "OpticalFlow_call (OpticalFlow_build keep_image (const_response 0) zero_weights)
          (?fr0, ?fr1, ?f01, ?f10, ?t) = Inr (f_t0, v_t0, f_t1, v_t1, g_i0_ft0, g_i1_ft1)"
      and dv0: "same_dims v_t0 2 32 40 1" and dv1: "same_dims v_t1 2 32 40 1"
      and w: "\<forall>b i j c. inside v_t0 b i j c \<longrightarrow>
          0 \<le> elem v_t0 b i j c \<and> elem v_t0 b i j c \<le> 1
          \<and> 0 \<le> elem v_t1 b i j c \<and> elem v_t1 b i j c \<le> 1
          \<and> elem v_t0 b i j c + elem v_t1 b i j c = 1"
    by (elim exE conjE) (rule that)
  have ins: "inside v_t0 1 31 39 0"
    using dv0 by (simp add: same_dims_inside)
  from w [rule_format, OF ins] call dv0 dv1 fr0 fr1 f01 f10 t H32 W32 show ?thesis
    by blast
qed

end
